theory Spec2Isabelle
  imports Complex_Main
begin

section \<open>JavaScript values and built-ins used by the route handlers\<close>

text \<open>
  The handlers of \<^verbatim>\<open>routes/users.js\<close> and \<^verbatim>\<open>routes/tasks.js\<close> read request
  fields that are strings or absent. A field is a \<open>string option\<close>: \<open>None\<close> is
  \<^verbatim>\<open>undefined\<close>. JavaScript truthiness of such a field: \<^verbatim>\<open>undefined\<close> and the
  empty string are falsy.
\<close>

fun truthy :: "string option \<Rightarrow> bool" where
  "truthy None = False"
| "truthy (Some s) = (s \<noteq> [])"

text \<open>\<^verbatim>\<open>x || d\<close> for a string field \<open>x\<close> and a string default \<open>d\<close>.\<close>

fun strOr :: "string option \<Rightarrow> string \<Rightarrow> string" where
  "strOr None d = d"
| "strOr (Some s) d = (if s = [] then d else s)"

text \<open>
  A JavaScript number is NaN, an infinity or a finite value; every finite double is a
  rational. A \<^verbatim>\<open>Date\<close> is its time value: an integral number of milliseconds since the
  epoch, or invalid (\<open>None\<close>, for which \<^verbatim>\<open>getTime()\<close> is NaN).
\<close>

datatype jsnum = JNaN | JPosInf | JNegInf | JFin rat

type_synonym date = "int option"

text \<open>
  The fields \<^verbatim>\<open>completed\<close> and \<^verbatim>\<open>deadline\<close> are used at their JavaScript type
  (\<^verbatim>\<open>typeof\<close>, \<^verbatim>\<open>Number\<close>, \<^verbatim>\<open>new Date\<close>), so the whole value is kept: what a JSON
  or form body can hold. \<open>JObject k\<close> is an array or an object, named by a tag \<open>k\<close>.
\<close>

datatype jsval =
    JUndefined
  | JNull
  | JBoolean bool
  | JNumber jsnum
  | JString string
  | JObject nat

text \<open>
  Truthiness of a value: \<^verbatim>\<open>undefined\<close>, \<^verbatim>\<open>null\<close>, \<^verbatim>\<open>false\<close>, 0, NaN and the empty
  string are falsy.
\<close>

fun jsTruthy :: "jsval \<Rightarrow> bool" where
  "jsTruthy JUndefined = False"
| "jsTruthy JNull = False"
| "jsTruthy (JBoolean b) = b"
| "jsTruthy (JNumber n) = (n \<noteq> JNaN \<and> n \<noteq> JFin 0)"
| "jsTruthy (JString s) = (s \<noteq> [])"
| "jsTruthy (JObject k) = True"

definition lowerChar :: "char \<Rightarrow> char" where
  "lowerChar c =
     (let n = (of_char c :: nat) in if 65 \<le> n \<and> n \<le> 90 then char_of (n + 32) else c)"

definition toLowerCase :: "string \<Rightarrow> string" where
  "toLowerCase s = map lowerChar s"

text \<open>
  \<^verbatim>\<open>
  function parseBoolean(val, defaultVal = false) {
    if (val === undefined || val === null) return defaultVal;
    if (typeof val === 'boolean') return val;
    if (typeof val === 'string') return val.toLowerCase() === 'true';
    return defaultVal;
  }
  \<close>
\<close>

fun parseBoolean :: "jsval \<Rightarrow> bool \<Rightarrow> bool" where
  "parseBoolean JUndefined defaultVal = defaultVal"
| "parseBoolean JNull defaultVal = defaultVal"
| "parseBoolean (JBoolean b) defaultVal = b"
| "parseBoolean (JString s) defaultVal = (toLowerCase s = ''true'')"
| "parseBoolean (JNumber n) defaultVal = defaultVal"
| "parseBoolean (JObject k) defaultVal = defaultVal"

text \<open>
  \<^verbatim>\<open>new Date(n)\<close> for a number \<open>n\<close> (ECMAScript TimeClip): invalid when \<open>n\<close> is not
  finite or \<open>|n| > 8.64e15\<close>, otherwise \<open>n\<close> truncated towards zero.
\<close>

fun newDateOfNumber :: "jsnum \<Rightarrow> date" where
  "newDateOfNumber (JFin r) =
     (if \<bar>r\<bar> > 8640000000000000 then None
      else Some (if r < 0 then \<lceil>r\<rceil> else \<lfloor>r\<rfloor>))"
| "newDateOfNumber JNaN = None"
| "newDateOfNumber JPosInf = None"
| "newDateOfNumber JNegInf = None"

fun isNaN :: "jsnum \<Rightarrow> bool" where
  "isNaN JNaN = True"
| "isNaN _ = False"

text \<open>The values \<^verbatim>\<open>JSON.parse\<close> returns, and their truthiness.\<close>

datatype json =
    JsNull
  | JsBool bool
  | JsNum rat
  | JsStr string
  | JsArr "json list"
  | JsObj "(string \<times> json) list"

fun jsonTruthy :: "json \<Rightarrow> bool" where
  "jsonTruthy JsNull = False"
| "jsonTruthy (JsBool b) = b"
| "jsonTruthy (JsNum r) = (r \<noteq> 0)"
| "jsonTruthy (JsStr s) = (s \<noteq> [])"
| "jsonTruthy (JsArr _) = True"
| "jsonTruthy (JsObj _) = True"

text \<open>
  The language built-ins the handlers call are parameters of the model:
  \<^item> \<open>jsNumber\<close> is \<^verbatim>\<open>Number(s)\<close> on a string;
  \<^item> \<open>dateParse\<close> is \<^verbatim>\<open>new Date(s)\<close> on a string (\<open>None\<close>: Invalid Date);
  \<^item> \<open>objNumber\<close> and \<open>objDate\<close> are \<^verbatim>\<open>Number(v)\<close> and \<^verbatim>\<open>new Date(v)\<close> on the
    array or object tagged \<open>k\<close>;
  \<^item> \<open>parseInt\<close> is \<^verbatim>\<open>parseInt(s)\<close> (\<open>None\<close>: NaN);
  \<^item> \<open>jsonParse\<close> is \<^verbatim>\<open>JSON.parse(s)\<close> (\<open>None\<close>: it throws);
  \<^item> \<open>now\<close> is the clock read when a document with a defaulted date is created.
\<close>

record env =
  jsNumber :: "string \<Rightarrow> jsnum"
  dateParse :: "string \<Rightarrow> date"
  objNumber :: "nat \<Rightarrow> jsnum"
  objDate :: "nat \<Rightarrow> date"
  parseInt :: "string \<Rightarrow> int option"
  jsonParse :: "string \<Rightarrow> json option"
  now :: int

section \<open>Documents and the store\<close>

text \<open>
  Modelled from the spec: the Mongoose schemas \<^verbatim>\<open>models/user.js\<close> and
  \<^verbatim>\<open>models/task.js\<close> are not among the sources; the fields are those of the
  spec's data model. Identifiers are the string forms of the store's ids.
\<close>

record user =
  u_id :: string
  u_name :: string
  u_email :: string
  u_pendingTasks :: "string list"
  u_dateCreated :: int

record task =
  t_id :: string
  t_name :: string
  t_description :: string
  t_deadline :: int
  t_completed :: bool
  t_assignedUser :: string
  t_assignedUserName :: string

text \<open>A collection is the list of its documents in insertion order.\<close>

record store =
  users :: "user list"
  tasks :: "task list"

text \<open>\<^verbatim>\<open>Model.findById(id)\<close> and \<^verbatim>\<open>Model.findOne(cond)\<close>: the first match.\<close>

definition findOne :: "('d \<Rightarrow> bool) \<Rightarrow> 'd list \<Rightarrow> 'd option" where
  "findOne P ds = find P ds"

definition findById :: "('d \<Rightarrow> string) \<Rightarrow> 'd list \<Rightarrow> string \<Rightarrow> 'd option" where
  "findById key ds i = findOne (\<lambda>d. key d = i) ds"

text \<open>
  \<^verbatim>\<open>findByIdAndUpdate\<close> and \<^verbatim>\<open>doc.save()\<close> of a loaded document change the first
  document that matches; no match changes nothing.
\<close>

fun updateFirst :: "('d \<Rightarrow> bool) \<Rightarrow> ('d \<Rightarrow> 'd) \<Rightarrow> 'd list \<Rightarrow> 'd list" where
  "updateFirst P f [] = []"
| "updateFirst P f (d # ds) = (if P d then f d # ds else d # updateFirst P f ds)"

text \<open>\<^verbatim>\<open>Model.updateMany(cond, {$set: ...})\<close>: every match is changed.\<close>

definition updateMany :: "('d \<Rightarrow> bool) \<Rightarrow> ('d \<Rightarrow> 'd) \<Rightarrow> 'd list \<Rightarrow> 'd list" where
  "updateMany P f ds = map (\<lambda>d. if P d then f d else d) ds"

text \<open>\<^verbatim>\<open>Model.deleteOne(cond)\<close>: the first match is removed.\<close>

fun deleteOne :: "('d \<Rightarrow> bool) \<Rightarrow> 'd list \<Rightarrow> 'd list" where
  "deleteOne P [] = []"
| "deleteOne P (d # ds) = (if P d then ds else d # deleteOne P ds)"

text \<open>The update operators \<^verbatim>\<open>$addToSet\<close> and \<^verbatim>\<open>$pull\<close> on an array of strings.\<close>

definition addToSet :: "string \<Rightarrow> string list \<Rightarrow> string list" where
  "addToSet x xs = (if x \<in> set xs then xs else xs @ [x])"

definition pull :: "string \<Rightarrow> string list \<Rightarrow> string list" where
  "pull x xs = filter (\<lambda>y. y \<noteq> x) xs"

section \<open>Responses\<close>

datatype rdata =
    DEmptyObject
  | DEmptyList
  | DUser user
  | DTask task
  | DUsers "user list"
  | DTasks "task list"
  | DCount nat
  | DError

record response =
  status :: nat
  message :: string
  data :: rdata

definition respond :: "nat \<Rightarrow> string \<Rightarrow> rdata \<Rightarrow> response" where
  "respond c m d = \<lparr>status = c, message = m, data = d\<rparr>"

text \<open>The \<^verbatim>\<open>catch\<close> clause of every handler.\<close>

definition serverError :: response where
  "serverError = respond 500 ''Server Error'' DError"

section \<open>Task routes\<close>

text \<open>\<^verbatim>\<open>Number(v)\<close> on a value (ECMAScript ToNumber).\<close>

fun toNumber :: "env \<Rightarrow> jsval \<Rightarrow> jsnum" where
  "toNumber e JUndefined = JNaN"
| "toNumber e JNull = JFin 0"
| "toNumber e (JBoolean b) = JFin (if b then 1 else 0)"
| "toNumber e (JNumber n) = n"
| "toNumber e (JString s) = jsNumber e s"
| "toNumber e (JObject k) = objNumber e k"

text \<open>
  \<^verbatim>\<open>new Date(v)\<close> on a value: a string is parsed as a date, any other primitive is
  taken as its number.
\<close>

fun newDate :: "env \<Rightarrow> jsval \<Rightarrow> date" where
  "newDate e (JString s) = dateParse e s"
| "newDate e (JObject k) = objDate e k"
| "newDate e v = newDateOfNumber (toNumber e v)"

text \<open>
  \<^verbatim>\<open>
  if (!isNaN(Number(deadline))) { deadline = new Date(Number(deadline)); }
  else { deadline = new Date(deadline); }
  if (isNaN(deadline.getTime())) return 400
  \<close>
  The result \<open>None\<close> is the Invalid Date that the handler answers with 400.
\<close>

definition parseDeadline :: "env \<Rightarrow> jsval \<Rightarrow> date" where
  "parseDeadline e deadline =
     (if \<not> isNaN (toNumber e deadline) then newDateOfNumber (toNumber e deadline)
      else newDate e deadline)"

record taskBody =
  b_name :: "string option"
  b_description :: "string option"
  b_deadline :: jsval
  b_completed :: jsval
  b_assignedUser :: "string option"
  b_assignedUserName :: "string option"

text \<open>
  \<^verbatim>\<open>User.findByIdAndUpdate(uid, { $addToSet: { pendingTasks: tid } })\<close> and the same
  with \<^verbatim>\<open>$pull\<close>.
\<close>

definition addPending :: "string \<Rightarrow> string \<Rightarrow> user list \<Rightarrow> user list" where
  "addPending uid tid us =
     updateFirst (\<lambda>u. u_id u = uid) (\<lambda>u. u\<lparr>u_pendingTasks := addToSet tid (u_pendingTasks u)\<rparr>) us"

definition pullPending :: "string \<Rightarrow> string \<Rightarrow> user list \<Rightarrow> user list" where
  "pullPending uid tid us =
     updateFirst (\<lambda>u. u_id u = uid) (\<lambda>u. u\<lparr>u_pendingTasks := pull tid (u_pendingTasks u)\<rparr>) us"

text \<open>
  POST /api/tasks (\<^verbatim>\<open>routes/tasks.js\<close>, lines 64 to 123). \<open>newId\<close> is the id the
  store gives the new document; saving a document whose id is already in the
  collection is a duplicate-key error, which the handler's \<^verbatim>\<open>catch\<close> turns into 500.
  The value first given to \<^verbatim>\<open>assignedUserName\<close> on line 86 is overwritten on both
  branches of the following conditional, so the client's field is never read.
\<close>

definition taskPost :: "env \<Rightarrow> string \<Rightarrow> taskBody \<Rightarrow> store \<Rightarrow> response \<times> store" where
  "taskPost e newId body s =
     (if \<not> truthy (b_name body) \<or> \<not> jsTruthy (b_deadline body) then
        (respond 400 ''Task name and deadline are required'' DEmptyObject, s)
      else
        (case parseDeadline e (b_deadline body) of
           None \<Rightarrow> (respond 400 ''Invalid deadline date'' DEmptyObject, s)
         | Some deadline \<Rightarrow>
             let completed = parseBoolean (b_completed body) False;
                 assignedUser = strOr (b_assignedUser body) []
             in
               (case (if assignedUser \<noteq> [] then
                        map_option u_name (findById u_id (users s) assignedUser)
                      else Some ''unassigned'') of
                  None \<Rightarrow> (respond 400 ''Assigned user not found'' DEmptyObject, s)
                | Some assignedUserName \<Rightarrow>
                    let savedTask =
                          \<lparr>t_id = newId,
                           t_name = strOr (b_name body) [],
                           t_description = strOr (b_description body) [],
                           t_deadline = deadline,
                           t_completed = completed,
                           t_assignedUser = assignedUser,
                           t_assignedUserName = assignedUserName\<rparr>
                    in
                      if newId \<in> set (map t_id (tasks s)) then (serverError, s)
                      else
                        let s1 = s\<lparr>tasks := tasks s @ [savedTask]\<rparr>;
                            s2 = (if assignedUser \<noteq> [] \<and> \<not> completed
                                  then s1\<lparr>users := addPending assignedUser newId (users s1)\<rparr>
                                  else s1)
                        in (respond 201 ''Task created'' (DTask savedTask), s2))))"

text \<open>
  PUT /api/tasks/:id (lines 151 to 231). \<^verbatim>\<open>req.body.assignedUser !== undefined\<close>
  distinguishes an absent field from an empty one. As in POST, the value first
  given to \<^verbatim>\<open>assignedUserName\<close> (line 181) is overwritten on both branches.
\<close>

definition taskPut :: "env \<Rightarrow> string \<Rightarrow> taskBody \<Rightarrow> store \<Rightarrow> response \<times> store" where
  "taskPut e i body s =
     (case findById t_id (tasks s) i of
        None \<Rightarrow> (respond 404 ''Task not found'' DEmptyObject, s)
      | Some existingTask \<Rightarrow>
          if \<not> truthy (b_name body) \<or> \<not> jsTruthy (b_deadline body) then
            (respond 400 ''Task name and deadline are required'' DEmptyObject, s)
          else
            (case parseDeadline e (b_deadline body) of
               None \<Rightarrow> (respond 400 ''Invalid deadline date'' DEmptyObject, s)
             | Some deadline \<Rightarrow>
                 let oldAssignedUser = t_assignedUser existingTask;
                     oldCompleted = t_completed existingTask;
                     completed = parseBoolean (b_completed body) oldCompleted;
                     assignedUser =
                       (case b_assignedUser body of None \<Rightarrow> oldAssignedUser | Some a \<Rightarrow> a)
                 in
                   (case (if assignedUser = [] then Some ''unassigned''
                          else map_option u_name (findById u_id (users s) assignedUser)) of
                      None \<Rightarrow> (respond 400 ''Assigned user not found'' DEmptyObject, s)
                    | Some assignedUserName \<Rightarrow>
                        let savedTask =
                              existingTask
                                \<lparr>t_name := strOr (b_name body) [],
                                 t_description :=
                                   strOr (b_description body) (t_description existingTask),
                                 t_deadline := deadline,
                                 t_completed := completed,
                                 t_assignedUser := assignedUser,
                                 t_assignedUserName := assignedUserName\<rparr>;
                            taskId = t_id savedTask;
                            s1 = s\<lparr>tasks :=
                                     updateFirst (\<lambda>t. t_id t = taskId) (\<lambda>_. savedTask) (tasks s)\<rparr>;
                            shouldRemove =
                              (oldAssignedUser \<noteq> assignedUser \<or> oldCompleted \<or> completed
                               \<or> assignedUser = []);
                            s2 = (if oldAssignedUser \<noteq> [] \<and> shouldRemove
                                  then s1\<lparr>users := pullPending oldAssignedUser taskId (users s1)\<rparr>
                                  else s1);
                            s3 = (if assignedUser \<noteq> [] \<and> \<not> completed
                                  then s2\<lparr>users := addPending assignedUser taskId (users s2)\<rparr>
                                  else s2)
                        in (respond 200 ''Task updated'' (DTask savedTask), s3))))"

text \<open>DELETE /api/tasks/:id (lines 234 to 259).\<close>

definition taskDelete :: "string \<Rightarrow> store \<Rightarrow> response \<times> store" where
  "taskDelete i s =
     (case findById t_id (tasks s) i of
        None \<Rightarrow> (respond 404 ''Task not found'' DEmptyObject, s)
      | Some task \<Rightarrow>
          let assignedUser = t_assignedUser task;
              s1 = (if assignedUser \<noteq> []
                    then s\<lparr>users := pullPending assignedUser (t_id task) (users s)\<rparr>
                    else s);
              s2 = s1\<lparr>tasks := deleteOne (\<lambda>t. t_id t = i) (tasks s1)\<rparr>
          in (respond 200 ''Task deleted'' DEmptyObject, s2))"

section \<open>User routes\<close>

text \<open>
  \<^verbatim>\<open>pendingTasks\<close> of a request body: absent, one string, or an array of strings.
\<close>

datatype ptval = PTUndefined | PTScalar string | PTArray "string list"

text \<open>
  \<^verbatim>\<open>
  let pendingTasks = req.body.pendingTasks || [];
  if (!Array.isArray(pendingTasks)) pendingTasks = [pendingTasks];
  \<close>
  (\<^verbatim>\<open>.map(String)\<close> is the identity on strings.)
\<close>

fun normalizePending :: "ptval \<Rightarrow> string list" where
  "normalizePending PTUndefined = []"
| "normalizePending (PTScalar x) = (if x = [] then [] else [x])"
| "normalizePending (PTArray xs) = xs"

record userBody =
  ub_name :: "string option"
  ub_email :: "string option"
  ub_pendingTasks :: ptval
  ub_dateCreated :: "string option"

text \<open>
  POST /api/users (\<^verbatim>\<open>routes/users.js\<close>, lines 58 to 88). The handler never reads
  \<^verbatim>\<open>req.body.dateCreated\<close>: the schema default (the creation time) is stored.
\<close>

definition userPost :: "env \<Rightarrow> string \<Rightarrow> userBody \<Rightarrow> store \<Rightarrow> response \<times> store" where
  "userPost e newId body s =
     (if \<not> truthy (ub_name body) \<or> \<not> truthy (ub_email body) then
        (respond 400 ''Name and email are required'' DEmptyObject, s)
      else
        (case findOne (\<lambda>u. u_email u = strOr (ub_email body) []) (users s) of
           Some existing \<Rightarrow>
             (respond 400 ''A user with that email already exists'' DEmptyObject, s)
         | None \<Rightarrow>
             let pendingTasks = normalizePending (ub_pendingTasks body);
                 saved = \<lparr>u_id = newId,
                          u_name = strOr (ub_name body) [],
                          u_email = strOr (ub_email body) [],
                          u_pendingTasks = pendingTasks,
                          u_dateCreated = now e\<rparr>
             in
               if newId \<in> set (map u_id (users s)) then (serverError, s)
               else (respond 201 ''User created'' (DUser saved),
                     s\<lparr>users := users s @ [saved]\<rparr>)))"

text \<open>
  PUT /api/users/:id (lines 116 to 180). An Invalid Date assigned to
  \<^verbatim>\<open>dateCreated\<close> makes \<^verbatim>\<open>user.save()\<close> reject, which the \<^verbatim>\<open>catch\<close> answers with 500
  before anything is written.
\<close>

definition userPut :: "env \<Rightarrow> string \<Rightarrow> userBody \<Rightarrow> store \<Rightarrow> response \<times> store" where
  "userPut e i body s =
     (if \<not> truthy (ub_name body) \<or> \<not> truthy (ub_email body) then
        (respond 400 ''Name and email are required'' DEmptyObject, s)
      else
        (case findById u_id (users s) i of
           None \<Rightarrow> (respond 404 ''User not found'' DEmptyObject, s)
         | Some user \<Rightarrow>
             (case findOne (\<lambda>u. u_email u = strOr (ub_email body) [] \<and> u_id u \<noteq> i) (users s) of
                Some existing \<Rightarrow>
                  (respond 400 ''A user with that email already exists'' DEmptyObject, s)
              | None \<Rightarrow>
                  let newPendingTasks = normalizePending (ub_pendingTasks body);
                      oldPendingTasks = u_pendingTasks user;
                      user1 = user\<lparr>u_name := strOr (ub_name body) [],
                                   u_email := strOr (ub_email body) [],
                                   u_pendingTasks := newPendingTasks\<rparr>
                  in
                    (case (if truthy (ub_dateCreated body)
                           then map_option (\<lambda>d. user1\<lparr>u_dateCreated := d\<rparr>)
                                  (dateParse e (strOr (ub_dateCreated body) []))
                           else Some user1) of
                       None \<Rightarrow> (serverError, s)
                     | Some savedUser \<Rightarrow>
                         let userId = u_id savedUser;
                             s1 = s\<lparr>users :=
                                      updateFirst (\<lambda>u. u_id u = userId) (\<lambda>_. savedUser) (users s)\<rparr>;
                             tasksToAdd = filter (\<lambda>x. x \<notin> set oldPendingTasks) newPendingTasks;
                             tasksToRemove = filter (\<lambda>x. x \<notin> set newPendingTasks) oldPendingTasks;
                             s2 = (if tasksToAdd \<noteq> [] then
                                     s1\<lparr>tasks :=
                                          updateMany (\<lambda>t. t_id t \<in> set tasksToAdd)
                                            (\<lambda>t. t\<lparr>t_assignedUser := userId,
                                                    t_assignedUserName := u_name savedUser,
                                                    t_completed := False\<rparr>)
                                            (tasks s1)\<rparr>
                                   else s1);
                             s3 = (if tasksToRemove \<noteq> [] then
                                     s2\<lparr>tasks :=
                                          updateMany
                                            (\<lambda>t. t_id t \<in> set tasksToRemove \<and> t_assignedUser t = userId)
                                            (\<lambda>t. t\<lparr>t_assignedUser := [],
                                                    t_assignedUserName := ''unassigned''\<rparr>)
                                            (tasks s2)\<rparr>
                                   else s2)
                         in (respond 200 ''User updated'' (DUser savedUser), s3)))))"

text \<open>DELETE /api/users/:id (lines 183 to 204).\<close>

definition userDelete :: "string \<Rightarrow> store \<Rightarrow> response \<times> store" where
  "userDelete i s =
     (case findById u_id (users s) i of
        None \<Rightarrow> (respond 404 ''User not found'' DEmptyObject, s)
      | Some user \<Rightarrow>
          let s1 = s\<lparr>tasks :=
                       updateMany (\<lambda>t. t_assignedUser t = i)
                         (\<lambda>t. t\<lparr>t_assignedUser := [], t_assignedUserName := ''unassigned''\<rparr>)
                         (tasks s)\<rparr>;
              s2 = s1\<lparr>users := deleteOne (\<lambda>u. u_id u = i) (users s1)\<rparr>
          in (respond 200 ''User deleted'' DEmptyObject, s2))"

section \<open>Listing\<close>

text \<open>
  \<^verbatim>\<open>
  function parseJSONParam(param) {
    if (!param) return null;
    try { return JSON.parse(param); } catch (e) { return null; }
  }
  \<close>
\<close>

definition parseJSONParam :: "env \<Rightarrow> string option \<Rightarrow> json" where
  "parseJSONParam e param =
     (if \<not> truthy param then JsNull
      else (case jsonParse e (strOr param []) of None \<Rightarrow> JsNull | Some v \<Rightarrow> v))"

definition jsonOr :: "json \<Rightarrow> json \<Rightarrow> json" where
  "jsonOr a b = (if jsonTruthy a then a else b)"

text \<open>
  The store's query language is a parameter: which documents a condition matches,
  how a sort specification orders two documents, what a projection keeps.
\<close>

record 'd engine =
  e_match :: "json \<Rightarrow> 'd \<Rightarrow> bool"
  e_le :: "json \<Rightarrow> 'd \<Rightarrow> 'd \<Rightarrow> bool"
  e_select :: "json \<Rightarrow> 'd \<Rightarrow> 'd"

text \<open>The query object a handler builds with \<^verbatim>\<open>.sort\<close>, \<^verbatim>\<open>.select\<close>, \<^verbatim>\<open>.skip\<close>, \<^verbatim>\<open>.limit\<close>.\<close>

record query =
  q_cond :: json
  q_sort :: "json option"
  q_select :: "json option"
  q_skip :: "int option"
  q_limit :: "int option"

definition find_query :: "json \<Rightarrow> query" where
  "find_query cond = \<lparr>q_cond = cond, q_sort = None, q_select = None, q_skip = None, q_limit = None\<rparr>"

fun insertBy :: "('d \<Rightarrow> 'd \<Rightarrow> bool) \<Rightarrow> 'd \<Rightarrow> 'd list \<Rightarrow> 'd list" where
  "insertBy le x [] = [x]"
| "insertBy le x (y # ys) = (if le x y then x # y # ys else y # insertBy le x ys)"

definition sortDocs :: "('d \<Rightarrow> 'd \<Rightarrow> bool) \<Rightarrow> 'd list \<Rightarrow> 'd list" where
  "sortDocs le ds = foldr (insertBy le) ds []"

text \<open>
  \<^verbatim>\<open>query.exec()\<close>: match, sort, project, skip, limit. The store rejects a negative
  skip (\<open>None\<close>, answered with 500) and reads a negative limit as its absolute value.
\<close>

definition exec :: "'d engine \<Rightarrow> query \<Rightarrow> 'd list \<Rightarrow> 'd list option" where
  "exec g q ds =
     (let matched = filter (e_match g (q_cond q)) ds;
          sorted = (case q_sort q of None \<Rightarrow> matched | Some sp \<Rightarrow> sortDocs (e_le g sp) matched);
          selected = (case q_select q of None \<Rightarrow> sorted | Some sl \<Rightarrow> map (e_select g sl) sorted)
      in (case q_skip q of
            None \<Rightarrow> Some (case q_limit q of None \<Rightarrow> selected | Some n \<Rightarrow> take (nat \<bar>n\<bar>) selected)
          | Some k \<Rightarrow>
              if k < 0 then None
              else Some (case q_limit q of
                           None \<Rightarrow> drop (nat k) selected
                         | Some n \<Rightarrow> take (nat \<bar>n\<bar>) (drop (nat k) selected))))"

text \<open>\<^verbatim>\<open>Model.countDocuments(cond)\<close>.\<close>

definition countDocuments :: "'d engine \<Rightarrow> json \<Rightarrow> 'd list \<Rightarrow> nat" where
  "countDocuments g cond ds = length (filter (e_match g cond) ds)"

record queryParams =
  qp_where :: "string option"
  qp_sort :: "string option"
  qp_select :: "string option"
  qp_filter :: "string option"
  qp_skip :: "string option"
  qp_limit :: "string option"
  qp_count :: "string option"

text \<open>\<^verbatim>\<open>if (n) query = ...\<close> for a number or \<^verbatim>\<open>null\<close>: NaN, \<^verbatim>\<open>null\<close> and 0 are falsy.\<close>

fun numTruthy :: "int option \<Rightarrow> bool" where
  "numTruthy None = False"
| "numTruthy (Some n) = (n \<noteq> 0)"

text \<open>
  The chain \<^verbatim>\<open>if (sort) query = query.sort(sort); ... if (limit) query = query.limit(limit);\<close>
  that both list handlers run on \<^verbatim>\<open>Model.find(where)\<close> (lines 49 to 53 of
  \<^verbatim>\<open>routes/tasks.js\<close>, lines 43 to 47 of \<^verbatim>\<open>routes/users.js\<close>).
\<close>

definition buildQuery :: "json \<Rightarrow> json \<Rightarrow> json \<Rightarrow> int option \<Rightarrow> int option \<Rightarrow> query" where
  "buildQuery wh sortSpec selectSpec skip limit =
     (let q0 = find_query wh;
          q1 = (if jsonTruthy sortSpec then q0\<lparr>q_sort := Some sortSpec\<rparr> else q0);
          q2 = (if jsonTruthy selectSpec then q1\<lparr>q_select := Some selectSpec\<rparr> else q1);
          q3 = (if numTruthy skip then q2\<lparr>q_skip := skip\<rparr> else q2);
          q4 = (if numTruthy limit then q3\<lparr>q_limit := limit\<rparr> else q3)
      in q4)"

text \<open>The three messages that quote a parameter's name.\<close>

definition badJSON :: "string \<Rightarrow> string" where
  "badJSON p = ''Bad Request: invalid JSON in '' @ [CHR 0x27] @ p @ [CHR 0x27]"

text \<open>GET /api/tasks (\<^verbatim>\<open>routes/tasks.js\<close>, lines 25 to 61).\<close>

definition tasksGet :: "env \<Rightarrow> task engine \<Rightarrow> queryParams \<Rightarrow> store \<Rightarrow> response" where
  "tasksGet e g rq s =
     (let wh = jsonOr (parseJSONParam e (qp_where rq)) (JsObj []);
          sortSpec = parseJSONParam e (qp_sort rq);
          selectSpec = jsonOr (parseJSONParam e (qp_select rq)) (parseJSONParam e (qp_filter rq));
          skip = (if truthy (qp_skip rq) then parseInt e (strOr (qp_skip rq) []) else None);
          limit = (if truthy (qp_limit rq) then parseInt e (strOr (qp_limit rq) []) else Some 100);
          count = (qp_count rq = Some ''true'')
      in
        if truthy (qp_where rq) \<and> \<not> jsonTruthy wh then
          respond 400 (badJSON ''where'') DEmptyList
        else if truthy (qp_sort rq) \<and> \<not> jsonTruthy sortSpec then
          respond 400 (badJSON ''sort'') DEmptyList
        else if (truthy (qp_select rq) \<or> truthy (qp_filter rq)) \<and> \<not> jsonTruthy selectSpec then
          respond 400 (badJSON ''select/filter'') DEmptyList
        else if count then
          respond 200 ''OK'' (DCount (countDocuments g wh (tasks s)))
        else
          (case exec g (buildQuery wh sortSpec selectSpec skip limit) (tasks s) of
             None \<Rightarrow> serverError
           | Some ts \<Rightarrow> respond 200 ''OK'' (DTasks ts)))"

text \<open>GET /api/users (\<^verbatim>\<open>routes/users.js\<close>, lines 19 to 55).\<close>

definition usersGet :: "env \<Rightarrow> user engine \<Rightarrow> queryParams \<Rightarrow> store \<Rightarrow> response" where
  "usersGet e g rq s =
     (let wh = jsonOr (parseJSONParam e (qp_where rq)) (JsObj []);
          sortSpec = parseJSONParam e (qp_sort rq);
          selectSpec = jsonOr (parseJSONParam e (qp_select rq)) (parseJSONParam e (qp_filter rq));
          skip = (if truthy (qp_skip rq) then parseInt e (strOr (qp_skip rq) []) else None);
          limit = (if truthy (qp_limit rq) then parseInt e (strOr (qp_limit rq) []) else None);
          count = (qp_count rq = Some ''true'')
      in
        if truthy (qp_where rq) \<and> \<not> jsonTruthy wh then
          respond 400 (badJSON ''where'') DEmptyList
        else if truthy (qp_sort rq) \<and> \<not> jsonTruthy sortSpec then
          respond 400 (badJSON ''sort'') DEmptyList
        else if (truthy (qp_select rq) \<or> truthy (qp_filter rq)) \<and> \<not> jsonTruthy selectSpec then
          respond 400 (badJSON ''select/filter'') DEmptyList
        else if count then
          respond 200 ''OK'' (DCount (countDocuments g wh (users s)))
        else
          (case exec g (buildQuery wh sortSpec selectSpec skip limit) (users s) of
             None \<Rightarrow> serverError
           | Some us \<Rightarrow> respond 200 ''OK'' (DUsers us)))"

text \<open>GET /api/users/:id (lines 93 to 113).\<close>

definition userGetById :: "env \<Rightarrow> user engine \<Rightarrow> queryParams \<Rightarrow> string \<Rightarrow> store \<Rightarrow> response" where
  "userGetById e g rq i s =
     (let selectSpec = jsonOr (parseJSONParam e (qp_select rq)) (parseJSONParam e (qp_filter rq))
      in
        if (truthy (qp_select rq) \<or> truthy (qp_filter rq)) \<and> \<not> jsonTruthy selectSpec then
          respond 400 (badJSON ''select/filter'') DEmptyObject
        else
          (case findById u_id (users s) i of
             None \<Rightarrow> respond 404 ''User not found'' DEmptyObject
           | Some user \<Rightarrow>
               respond 200 ''OK''
                 (DUser (if jsonTruthy selectSpec then e_select g selectSpec user else user))))"

section \<open>Sequences of task operations\<close>

datatype taskOp =
    TaskPOST string taskBody
  | TaskPUT string taskBody
  | TaskDELETE string

fun runTaskOp :: "env \<Rightarrow> taskOp \<Rightarrow> store \<Rightarrow> response \<times> store" where
  "runTaskOp e (TaskPOST newId body) s = taskPost e newId body s"
| "runTaskOp e (TaskPUT i body) s = taskPut e i body s"
| "runTaskOp e (TaskDELETE i) s = taskDelete i s"

definition successful :: "response \<Rightarrow> bool" where
  "successful r = (status r = 200 \<or> status r = 201)"

text \<open>
  A sequence in which every operation succeeds ends in \<open>Some\<close> store; a failing
  operation makes the sequence fail.
\<close>

fun runTaskOps :: "env \<Rightarrow> taskOp list \<Rightarrow> store \<Rightarrow> store option" where
  "runTaskOps e [] s = Some s"
| "runTaskOps e (op # ops) s =
     (case runTaskOp e op s of
        (r, s') \<Rightarrow> if successful r then runTaskOps e ops s' else None)"

section \<open>Properties of the store\<close>

text \<open>The store keeps \<^verbatim>\<open>_id\<close> unique in each collection.\<close>

definition uniqueIds :: "store \<Rightarrow> bool" where
  "uniqueIds s = (distinct (map u_id (users s)) \<and> distinct (map t_id (tasks s)))"

text \<open>
  The pending list of the user \<open>uid\<close> holds exactly the ids of the open tasks
  assigned to \<open>uid\<close> (as sets: the list is a membership set).
\<close>

definition openTasksOf :: "string \<Rightarrow> task list \<Rightarrow> string list" where
  "openTasksOf uid ts = map t_id (filter (\<lambda>t. t_assignedUser t = uid \<and> \<not> t_completed t) ts)"

definition pendingExact :: "store \<Rightarrow> string \<Rightarrow> bool" where
  "pendingExact s uid =
     list_all (\<lambda>u. u_id u = uid \<longrightarrow> set (u_pendingTasks u) = set (openTasksOf uid (tasks s)))
       (users s)"

text \<open>
  The denormalised name of a task is the name of the user it references, or
  \<^verbatim>\<open>unassigned\<close> for an unassigned task.
\<close>

definition nameInSync :: "store \<Rightarrow> task \<Rightarrow> bool" where
  "nameInSync s t =
     (if t_assignedUser t = [] then t_assignedUserName t = ''unassigned''
      else map_option u_name (findById u_id (users s) (t_assignedUser t))
             = Some (t_assignedUserName t))"

section \<open>A small concrete store\<close>

text \<open>
  Concrete data on which the theorems below are exercised. \<open>sampleEnv\<close> fixes the
  built-ins on the few values used: \<^verbatim>\<open>Number("1700000000000")\<close> is that number,
  \<^verbatim>\<open>Number("-1500.5")\<close> is -1500.5, \<^verbatim>\<open>Number\<close> of the other strings and of arrays and
  objects is NaN; \<^verbatim>\<open>new Date("2020-01-01T00:00:00.000Z")\<close> is 1577836800000 and every
  other string, array or object is an Invalid Date.
\<close>

definition sampleEnv :: env where
  "sampleEnv =
     \<lparr>jsNumber = (\<lambda>s. if s = ''1700000000000'' then JFin 1700000000000
                      else if s = ''-1500.5'' then JFin (- 3001 / 2) else JNaN),
      dateParse = (\<lambda>s. if s = ''2020-01-01T00:00:00.000Z'' then Some 1577836800000 else None),
      objNumber = (\<lambda>k. JNaN),
      objDate = (\<lambda>k. None),
      parseInt = (\<lambda>s. if s = ''1'' then Some 1 else None),
      jsonParse = (\<lambda>s. if s = ''{}'' then Some (JsObj []) else None),
      now = 1762128000000\<rparr>"

definition alice :: user where
  "alice = \<lparr>u_id = ''u1'', u_name = ''Alice'', u_email = ''alice@example.org'',
            u_pendingTasks = [''t1''], u_dateCreated = 1000\<rparr>"

definition bob :: user where
  "bob = \<lparr>u_id = ''u2'', u_name = ''Bob'', u_email = ''bob@example.org'',
          u_pendingTasks = [], u_dateCreated = 2000\<rparr>"

definition task1 :: task where
  "task1 = \<lparr>t_id = ''t1'', t_name = ''report'', t_description = ''draft the report'',
            t_deadline = 1700000000000, t_completed = False,
            t_assignedUser = ''u1'', t_assignedUserName = ''Alice''\<rparr>"

definition task2 :: task where
  "task2 = \<lparr>t_id = ''t2'', t_name = ''slides'', t_description = [],
            t_deadline = 1700000000001, t_completed = True,
            t_assignedUser = ''u1'', t_assignedUserName = ''Alice''\<rparr>"

definition task3 :: task where
  "task3 = \<lparr>t_id = ''t3'', t_name = ''review'', t_description = ''second reading'',
            t_deadline = 1700000000002, t_completed = True,
            t_assignedUser = [], t_assignedUserName = ''unassigned''\<rparr>"

definition sampleStore :: store where
  "sampleStore = \<lparr>users = [alice, bob], tasks = [task1, task2, task3]\<rparr>"

definition emptyStore :: store where
  "emptyStore = \<lparr>users = [], tasks = []\<rparr>"

text \<open>A task body with only the two required fields, and a user body likewise.\<close>

definition taskReq :: "string \<Rightarrow> string \<Rightarrow> taskBody" where
  "taskReq n d =
     \<lparr>b_name = Some n, b_description = None, b_deadline = JString d, b_completed = JUndefined,
      b_assignedUser = None, b_assignedUserName = None\<rparr>"

definition userReq :: "string \<Rightarrow> string \<Rightarrow> userBody" where
  "userReq n m =
     \<lparr>ub_name = Some n, ub_email = Some m, ub_pendingTasks = PTUndefined,
      ub_dateCreated = None\<rparr>"

definition noParams :: queryParams where
  "noParams =
     \<lparr>qp_where = None, qp_sort = None, qp_select = None, qp_filter = None, qp_skip = None,
      qp_limit = None, qp_count = None\<rparr>"

text \<open>A query engine whose conditions match every document and whose projections keep it whole.\<close>

definition plainEngine :: "'d engine" where
  "plainEngine = \<lparr>e_match = (\<lambda>_ _. True), e_le = (\<lambda>_ _ _. True), e_select = (\<lambda>_ d. d)\<rparr>"

text \<open>A store with 150 users and 150 tasks, more than the default page of the task list.\<close>

definition manyUsers :: "user list" where
  "manyUsers =
     map (\<lambda>n. bob\<lparr>u_id := replicate (Suc n) (CHR ''u''), u_email := replicate (Suc n) (CHR ''m'')\<rparr>)
       [0..<150]"

definition manyTasks :: "task list" where
  "manyTasks = map (\<lambda>n. task3\<lparr>t_id := replicate (Suc n) (CHR ''t'')\<rparr>) [0..<150]"

definition bigStore :: store where
  "bigStore = \<lparr>users = manyUsers, tasks = manyTasks\<rparr>"

text \<open>
  Four task requests on \<open>sampleStore\<close>: create an open task for Alice, complete
  \<^verbatim>\<open>t1\<close>, reopen \<^verbatim>\<open>t2\<close> for Bob, delete the new task.
\<close>

definition sampleOps :: "taskOp list" where
  "sampleOps =
     [TaskPOST ''t4'' ((taskReq ''notes'' ''1700000000000'')\<lparr>b_assignedUser := Some ''u1''\<rparr>),
      TaskPUT ''t1'' ((taskReq ''report'' ''1700000000000'')\<lparr>b_completed := JBoolean True\<rparr>),
      TaskPUT ''t2'' ((taskReq ''slides'' ''1700000000000'')
                        \<lparr>b_completed := JString ''false'', b_assignedUser := Some ''u2''\<rparr>),
      TaskDELETE ''t4'']"

text \<open>A user update that renames Alice and keeps her pending list.\<close>

definition renameBody :: userBody where
  "renameBody = (userReq ''Alicia'' ''alice@example.org'')\<lparr>ub_pendingTasks := PTArray [''t1'']\<rparr>"

section \<open>Facts about the store operations and the handlers\<close>

lemmas sample_defs =
  sampleEnv_def alice_def bob_def task1_def task2_def task3_def sampleStore_def
  emptyStore_def taskReq_def userReq_def noParams_def plainEngine_def

lemma strOr_eq: "strOr x d = (case x of None \<Rightarrow> d | Some s \<Rightarrow> if s = [] then d else s)"
  by (cases x) auto

lemma find_updateFirst:
  "(\<And>d. P d \<Longrightarrow> P (f d)) \<Longrightarrow> find P (updateFirst P f ds) = map_option f (find P ds)"
  by (induction ds) auto

lemma findById_updateFirst_const:
  "key d' = i \<Longrightarrow> findById key ds i = Some d \<Longrightarrow>
   findById key (updateFirst (\<lambda>x. key x = i) (\<lambda>_. d') ds) i = Some d'"
  by (simp add: findById_def findOne_def find_updateFirst)

lemma findById_key: "findById key ds i = Some d \<Longrightarrow> key d = i \<and> d \<in> set ds"
  by (auto simp: findById_def findOne_def find_Some_iff)

lemma parseDeadline_number:
  "toNumber e v = JFin q \<Longrightarrow> \<bar>q\<bar> \<le> 8640000000000000 \<Longrightarrow>
   parseDeadline e v = Some (if q < 0 then \<lceil>q\<rceil> else \<lfloor>q\<rfloor>)"
  by (simp add: parseDeadline_def)

lemma parseDeadline_string:
  "isNaN (jsNumber e x) \<Longrightarrow> parseDeadline e (JString x) = dateParse e x"
  by (simp add: parseDeadline_def)

lemma parseDeadline_not_nan:
  "\<not> isNaN (toNumber e v) \<Longrightarrow> parseDeadline e v = newDateOfNumber (toNumber e v)"
  by (simp add: parseDeadline_def)

lemma taskPost_invalid_deadline:
  "parseDeadline e (b_deadline body) = None \<Longrightarrow>
   status (fst (taskPost e newId body s)) = 400 \<and> snd (taskPost e newId body s) = s"
  by (auto simp: taskPost_def respond_def)

lemma taskPut_invalid_deadline:
  "parseDeadline e (b_deadline body) = None \<Longrightarrow>
   findById t_id (tasks s) i = Some old \<Longrightarrow>
   status (fst (taskPut e i body s)) = 400 \<and> snd (taskPut e i body s) = s"
  by (auto simp: taskPut_def respond_def)

lemma taskPost_falsy_deadline:
  "\<not> jsTruthy (b_deadline body) \<Longrightarrow>
   taskPost e newId body s = (respond 400 ''Task name and deadline are required'' DEmptyObject, s)"
  by (simp add: taskPost_def)

lemma taskPut_falsy_deadline:
  "\<not> jsTruthy (b_deadline body) \<Longrightarrow> findById t_id (tasks s) i = Some old \<Longrightarrow>
   taskPut e i body s = (respond 400 ''Task name and deadline are required'' DEmptyObject, s)"
  by (simp add: taskPut_def)

lemma taskPost_stored_deadline:
  "taskPost e newId body s = (r, s') \<Longrightarrow> status r = 201 \<Longrightarrow>
   \<exists>t. data r = DTask t \<and> t_id t = newId \<and> t \<in> set (tasks s') \<and>
       jsTruthy (b_deadline body) \<and> parseDeadline e (b_deadline body) = Some (t_deadline t)"
  by (auto simp: taskPost_def respond_def Let_def serverError_def split: option.splits if_splits)

lemma taskPut_stored_deadline:
  "taskPut e i body s = (r, s') \<Longrightarrow> status r = 200 \<Longrightarrow>
   \<exists>t. data r = DTask t \<and> findById t_id (tasks s') i = Some t \<and>
       jsTruthy (b_deadline body) \<and> parseDeadline e (b_deadline body) = Some (t_deadline t)"
proof (cases "findById t_id (tasks s) i")
  case None
  then show "taskPut e i body s = (r, s') \<Longrightarrow> status r = 200 \<Longrightarrow> ?thesis"
    by (auto simp: taskPut_def respond_def)
next
  case (Some old)
  show "taskPut e i body s = (r, s') \<Longrightarrow> status r = 200 \<Longrightarrow> ?thesis"
    using Some findById_key[OF Some]
    by (auto simp: taskPut_def respond_def Let_def findById_updateFirst_const
          split: option.splits if_splits)
qed

lemma taskPost_valid_deadline:
  assumes "truthy (b_name body)" and "jsTruthy (b_deadline body)"
      and "parseDeadline e (b_deadline body) = Some t"
      and "strOr (b_assignedUser body) [] = [] \<or>
           findById u_id (users s) (strOr (b_assignedUser body) []) \<noteq> None"
      and "newId \<notin> set (map t_id (tasks s))"
  shows "status (fst (taskPost e newId body s)) = 201 \<and>
         (\<exists>k. tasks (snd (taskPost e newId body s)) = tasks s @ [k] \<and> t_id k = newId \<and>
              t_deadline k = t)"
  using assms
  by (auto simp: taskPost_def respond_def Let_def split: option.splits)

lemma taskPut_valid_deadline:
  assumes "findById t_id (tasks s) i = Some old"
      and "truthy (b_name body)" and "jsTruthy (b_deadline body)"
      and "parseDeadline e (b_deadline body) = Some t"
      and "(case b_assignedUser body of None \<Rightarrow> t_assignedUser old | Some a \<Rightarrow> a) = [] \<or>
           findById u_id (users s)
             (case b_assignedUser body of None \<Rightarrow> t_assignedUser old | Some a \<Rightarrow> a) \<noteq> None"
  shows "status (fst (taskPut e i body s)) = 200 \<and>
         (\<exists>k. findById t_id (tasks (snd (taskPut e i body s))) i = Some k \<and> t_deadline k = t)"
  using assms findById_key[OF assms(1)]
  by (auto simp: taskPut_def respond_def Let_def findById_updateFirst_const
        split: option.splits)

lemma deleteOne_distinct:
  "distinct (map key ds) \<Longrightarrow> deleteOne (\<lambda>x. key x = k) ds = filter (\<lambda>x. key x \<noteq> k) ds"
  by (induction ds) (auto intro!: filter_True[symmetric] simp: image_iff)

lemma updateFirst_distinct:
  "distinct (map key ds) \<Longrightarrow>
   updateFirst (\<lambda>x. key x = k) f ds = map (\<lambda>x. if key x = k then f x else x) ds"
  by (induction ds) (auto intro!: map_idI[symmetric] simp: image_iff)

lemma findById_None_iff: "findById key ds i = None \<longleftrightarrow> i \<notin> key ` set ds"
  by (auto simp: findById_def findOne_def find_None_iff)

lemma findById_filter_ne: "findById key (filter (\<lambda>x. key x \<noteq> i) ds) i = None"
  by (auto simp: findById_None_iff)

lemma userDelete_existing:
  assumes "findById u_id (users s) i = Some u" and "distinct (map u_id (users s))"
  shows "status (fst (userDelete i s)) = 200 \<and>
         tasks (snd (userDelete i s)) =
           map (\<lambda>t. if t_assignedUser t = i
                    then t\<lparr>t_assignedUser := [], t_assignedUserName := ''unassigned''\<rparr> else t)
             (tasks s) \<and>
         users (snd (userDelete i s)) = filter (\<lambda>u. u_id u \<noteq> i) (users s) \<and>
         findById u_id (users (snd (userDelete i s))) i = None \<and>
         status (userGetById e g rq i (snd (userDelete i s))) \<noteq> 200"
  using assms
  by (auto simp: userDelete_def Let_def respond_def updateMany_def deleteOne_distinct
       findById_filter_ne userGetById_def)

lemma userDelete_missing:
  "findById u_id (users s) i = None \<Longrightarrow>
   status (fst (userDelete i s)) = 404 \<and> snd (userDelete i s) = s"
  by (simp add: userDelete_def respond_def)

lemma findById_updateFirst_same:
  "(\<And>d. key (f d) = key d) \<Longrightarrow>
   findById key (updateFirst (\<lambda>x. key x = i) f ds) i = map_option f (findById key ds i)"
  by (simp add: findById_def findOne_def find_updateFirst)

lemma findById_updateFirst_other:
  "(\<And>d. key (f d) = key d) \<Longrightarrow> i \<noteq> j \<Longrightarrow>
   findById key (updateFirst (\<lambda>x. key x = j) f ds) i = findById key ds i"
  by (induction ds) (auto simp: findById_def findOne_def)

lemma findById_addPending:
  "findById u_id (addPending uid tid us) k =
     (if k = uid
      then map_option (\<lambda>u. u\<lparr>u_pendingTasks := addToSet tid (u_pendingTasks u)\<rparr>) (findById u_id us k)
      else findById u_id us k)"
  by (simp add: addPending_def findById_updateFirst_same findById_updateFirst_other)

lemma findById_pullPending:
  "findById u_id (pullPending uid tid us) k =
     (if k = uid
      then map_option (\<lambda>u. u\<lparr>u_pendingTasks := pull tid (u_pendingTasks u)\<rparr>) (findById u_id us k)
      else findById u_id us k)"
  by (simp add: pullPending_def findById_updateFirst_same findById_updateFirst_other)

lemma pull_removeAll: "pull x xs = removeAll x xs"
  by (induction xs) (auto simp: pull_def)

lemma updateMany_none: "(\<And>t. t \<in> set ts \<Longrightarrow> \<not> P t) \<Longrightarrow> updateMany P f ts = ts"
  by (auto simp: updateMany_def intro: map_idI)

lemma store_guard:
  "(if filter Q xs \<noteq> []
    then st\<lparr>tasks := updateMany (\<lambda>t. key t \<in> set (filter Q xs) \<and> R t) f (tasks st)\<rparr> else st)
     = st\<lparr>tasks := updateMany (\<lambda>t. key t \<in> set (filter Q xs) \<and> R t) f (tasks st)\<rparr>"
  by (cases "filter Q xs = []") (simp_all add: updateMany_none)

lemma store_guard':
  "(if filter Q xs \<noteq> []
    then st\<lparr>tasks := updateMany (\<lambda>t. key t \<in> set (filter Q xs)) f (tasks st)\<rparr> else st)
     = st\<lparr>tasks := updateMany (\<lambda>t. key t \<in> set (filter Q xs)) f (tasks st)\<rparr>"
  by (cases "filter Q xs = []") (simp_all add: updateMany_none)

lemma userPut_tasks:
  assumes "userPut e i body s = (r, s')" and "status r = 200"
      and "findById u_id (users s) i = Some old" and "ub_name body = Some n"
  shows "tasks s' =
     updateMany
       (\<lambda>t. t_id t \<in> set (filter (\<lambda>x. x \<notin> set (normalizePending (ub_pendingTasks body)))
                              (u_pendingTasks old)) \<and> t_assignedUser t = i)
       (\<lambda>t. t\<lparr>t_assignedUser := [], t_assignedUserName := ''unassigned''\<rparr>)
       (updateMany
          (\<lambda>t. t_id t \<in> set (filter (\<lambda>x. x \<notin> set (u_pendingTasks old))
                                 (normalizePending (ub_pendingTasks body))))
          (\<lambda>t. t\<lparr>t_assignedUser := i, t_assignedUserName := n, t_completed := False\<rparr>)
          (tasks s))"
proof -
  have k: "u_id old = i" using findById_key[OF assms(3)] by simp
  have n: "n \<noteq> []" using assms
    by (auto simp: userPut_def respond_def split: if_splits)
  show ?thesis
    using assms k n
    unfolding userPut_def Let_def store_guard store_guard'
    by (auto simp: respond_def serverError_def split: option.splits if_splits)
qed

lemma findOne_None_iff: "findOne P ds = None \<longleftrightarrow> (\<forall>d\<in>set ds. \<not> P d)"
  by (auto simp: findOne_def find_None_iff)

lemma userPost_duplicate:
  assumes "ub_email body = Some m" and "m \<in> u_email ` set (users s)"
  shows "status (fst (userPost e newId body s)) = 400 \<and> snd (userPost e newId body s) = s \<and>
         (truthy (ub_name body) \<and> m \<noteq> [] \<longrightarrow>
            message (fst (userPost e newId body s)) = ''A user with that email already exists'')"
proof -
  have "findOne (\<lambda>u. u_email u = m) (users s) \<noteq> None"
    using assms(2) by (auto simp: findOne_None_iff)
  then show ?thesis using assms(1)
    by (auto simp: userPost_def respond_def)
qed

lemma userPost_new_email:
  assumes "ub_email body = Some m" and "m \<noteq> []" and "ub_name body = Some n" and "n \<noteq> []"
      and "m \<notin> u_email ` set (users s)" and "newId \<notin> u_id ` set (users s)"
  shows "status (fst (userPost e newId body s)) = 201 \<and>
         snd (userPost e newId body s) =
           s\<lparr>users := users s @
               [\<lparr>u_id = newId, u_name = n, u_email = m,
                 u_pendingTasks = normalizePending (ub_pendingTasks body),
                 u_dateCreated = now e\<rparr>]\<rparr>"
proof -
  have "findOne (\<lambda>u. u_email u = m) (users s) = None"
    using assms(5) by (auto simp: findOne_None_iff)
  then show ?thesis using assms
    by (auto simp: userPost_def respond_def Let_def)
qed

lemma userPut_duplicate:
  assumes "ub_email body = Some m" and "m \<noteq> []" and "truthy (ub_name body)"
      and "findById u_id (users s) i \<noteq> None"
      and "u \<in> set (users s)" and "u_email u = m" and "u_id u \<noteq> i"
  shows "status (fst (userPut e i body s)) = 400 \<and> snd (userPut e i body s) = s \<and>
         message (fst (userPut e i body s)) = ''A user with that email already exists''"
proof -
  have "findOne (\<lambda>u. u_email u = m \<and> u_id u \<noteq> i) (users s) \<noteq> None"
    using assms(5-7) by (auto simp: findOne_None_iff)
  then show ?thesis using assms(1-4)
    by (auto simp: userPut_def respond_def)
qed

lemma userPut_unique_email:
  assumes "ub_email body = Some m" and "m \<noteq> []" and "truthy (ub_name body)"
      and "findById u_id (users s) i \<noteq> None"
      and "\<forall>u\<in>set (users s). u_email u = m \<longrightarrow> u_id u = i"
      and "\<not> truthy (ub_dateCreated body) \<or> dateParse e (strOr (ub_dateCreated body) []) \<noteq> None"
  shows "status (fst (userPut e i body s)) = 200"
proof -
  have "findOne (\<lambda>u. u_email u = m \<and> u_id u \<noteq> i) (users s) = None"
    using assms(5) by (auto simp: findOne_None_iff)
  then show ?thesis using assms(1-4,6)
    by (auto simp: userPut_def respond_def Let_def split: option.splits)
qed

lemma userPost_dateCreated:
  assumes "userPost e newId body s = (r, s')" and "status r = 201"
  shows "\<exists>u. data r = DUser u \<and> users s' = users s @ [u] \<and> u_id u = newId \<and>
             u_dateCreated u = now e"
  using assms
  by (auto simp: userPost_def respond_def Let_def serverError_def split: option.splits if_splits)

lemma userPut_dateCreated:
  assumes "userPut e i body s = (r, s')" and "status r = 200"
  shows "\<exists>old u'. findById u_id (users s) i = Some old \<and> data r = DUser u' \<and>
           findById u_id (users s') i = Some u' \<and>
           (\<forall>d. ub_dateCreated body = Some d \<and> d \<noteq> [] \<longrightarrow> dateParse e d = Some (u_dateCreated u')) \<and>
           (\<not> truthy (ub_dateCreated body) \<longrightarrow> u_dateCreated u' = u_dateCreated old)"
proof -
  obtain old where old: "findById u_id (users s) i = Some old"
    using assms by (cases "findById u_id (users s) i")
      (auto simp: userPut_def respond_def split: if_splits)
  show ?thesis
    using assms old findById_key[OF old]
    unfolding userPut_def Let_def store_guard store_guard'
    by (auto simp: respond_def serverError_def findById_updateFirst_const
        split: option.splits if_splits)
qed

lemma length_insertBy: "length (insertBy le x xs) = Suc (length xs)"
  by (induction xs) auto

lemma length_sortDocs: "length (sortDocs le ds) = length ds"
  by (induction ds) (auto simp: sortDocs_def length_insertBy)

lemma set_insertBy: "set (insertBy le x xs) = insert x (set xs)"
  by (induction xs) auto

lemma set_sortDocs: "set (sortDocs le ds) = set ds"
  by (induction ds) (auto simp: sortDocs_def set_insertBy)

lemma exec_length:
  assumes "exec g q ds = Some rs"
  shows "length rs =
     (case q_limit q of
        None \<Rightarrow> countDocuments g (q_cond q) ds - (case q_skip q of None \<Rightarrow> 0 | Some k \<Rightarrow> nat k)
      | Some l \<Rightarrow> min (nat \<bar>l\<bar>)
          (countDocuments g (q_cond q) ds - (case q_skip q of None \<Rightarrow> 0 | Some k \<Rightarrow> nat k)))"
  using assms
  by (auto simp: exec_def Let_def countDocuments_def length_sortDocs min.commute
      split: option.splits if_splits)

lemma exec_set_all:
  assumes "exec g q ds = Some rs" and "q_limit q = None" and "q_skip q = None"
      and "q_select q = None"
  shows "set rs = {d \<in> set ds. e_match g (q_cond q) d}"
  using assms
  by (auto simp: exec_def Let_def set_sortDocs split: option.splits)

lemma buildQuery_fields:
  "q_cond (buildQuery wh so se sk li) = wh \<and>
   q_skip (buildQuery wh so se sk li) = (if numTruthy sk then sk else None) \<and>
   q_limit (buildQuery wh so se sk li) = (if numTruthy li then li else None) \<and>
   q_select (buildQuery wh so se sk li) = (if jsonTruthy se then Some se else None)"
  by (simp add: buildQuery_def find_query_def Let_def)

lemma skip_nat: "(case (if numTruthy sk then sk else None) of None \<Rightarrow> 0 | Some k \<Rightarrow> nat k)
   = (case sk of None \<Rightarrow> 0 | Some k \<Rightarrow> nat k)"
  by (cases sk) auto

lemma tasksGet_default_limit:
  assumes "\<not> truthy (qp_limit rq)" and "data (tasksGet e g rq s) = DTasks ts"
  shows "length ts =
     min 100 (countDocuments g (jsonOr (parseJSONParam e (qp_where rq)) (JsObj [])) (tasks s)
              - (case (if truthy (qp_skip rq) then parseInt e (strOr (qp_skip rq) []) else None) of
                   None \<Rightarrow> 0 | Some k \<Rightarrow> nat k))"
proof -
  let ?q = "buildQuery (jsonOr (parseJSONParam e (qp_where rq)) (JsObj []))
              (parseJSONParam e (qp_sort rq))
              (jsonOr (parseJSONParam e (qp_select rq)) (parseJSONParam e (qp_filter rq)))
              (if truthy (qp_skip rq) then parseInt e (strOr (qp_skip rq) []) else None)
              (Some 100)"
  have "exec g ?q (tasks s) = Some ts"
    using assms
    by (auto simp: tasksGet_def Let_def respond_def serverError_def
        split: if_splits option.splits)
  from exec_length[OF this] show ?thesis
    by (simp add: buildQuery_fields skip_nat)
qed

lemma usersGet_no_limit:
  assumes "\<not> truthy (qp_limit rq)" and "data (usersGet e g rq s) = DUsers us"
  shows "length us =
     countDocuments g (jsonOr (parseJSONParam e (qp_where rq)) (JsObj [])) (users s)
       - (case (if truthy (qp_skip rq) then parseInt e (strOr (qp_skip rq) []) else None) of
            None \<Rightarrow> 0 | Some k \<Rightarrow> nat k)"
    and "\<not> truthy (qp_skip rq) \<Longrightarrow> \<not> truthy (qp_select rq) \<Longrightarrow> \<not> truthy (qp_filter rq) \<Longrightarrow>
         set us = {u \<in> set (users s).
                    e_match g (jsonOr (parseJSONParam e (qp_where rq)) (JsObj [])) u}"
proof -
  let ?q = "buildQuery (jsonOr (parseJSONParam e (qp_where rq)) (JsObj []))
              (parseJSONParam e (qp_sort rq))
              (jsonOr (parseJSONParam e (qp_select rq)) (parseJSONParam e (qp_filter rq)))
              (if truthy (qp_skip rq) then parseInt e (strOr (qp_skip rq) []) else None)
              None"
  have ex: "exec g ?q (users s) = Some us"
    using assms
    by (auto simp: usersGet_def Let_def respond_def serverError_def
        split: if_splits option.splits)
  from exec_length[OF ex] show "length us =
     countDocuments g (jsonOr (parseJSONParam e (qp_where rq)) (JsObj [])) (users s)
       - (case (if truthy (qp_skip rq) then parseInt e (strOr (qp_skip rq) []) else None) of
            None \<Rightarrow> 0 | Some k \<Rightarrow> nat k)"
    by (simp add: buildQuery_fields skip_nat)
  show "set us = {u \<in> set (users s).
                    e_match g (jsonOr (parseJSONParam e (qp_where rq)) (JsObj [])) u}"
    if "\<not> truthy (qp_skip rq)" "\<not> truthy (qp_select rq)" "\<not> truthy (qp_filter rq)"
    using exec_set_all[OF ex] that
    by (simp add: buildQuery_fields parseJSONParam_def jsonOr_def)
qed

lemma exec_no_skip: "q_skip q = None \<Longrightarrow> \<exists>rs. exec g q ds = Some rs"
  by (simp add: exec_def Let_def)

lemma tasksGet_plain:
  assumes "qp_count rq \<noteq> Some ''true''" and "\<not> truthy (qp_sort rq)"
      and "\<not> truthy (qp_select rq)" and "\<not> truthy (qp_filter rq)" and "\<not> truthy (qp_skip rq)"
  shows "\<exists>ts. tasksGet e g rq s = respond 200 ''OK'' (DTasks ts)"
proof -
  let ?q = "buildQuery (jsonOr (parseJSONParam e (qp_where rq)) (JsObj [])) JsNull JsNull None
              (if truthy (qp_limit rq) then parseInt e (strOr (qp_limit rq) []) else Some 100)"
  have "q_skip ?q = None" by (simp add: buildQuery_fields)
  from exec_no_skip[OF this] obtain ts where ts: "exec g ?q (tasks s) = Some ts" by blast
  have "tasksGet e g rq s = respond 200 ''OK'' (DTasks ts)"
    using assms ts by (simp add: tasksGet_def Let_def parseJSONParam_def jsonOr_def)
  then show ?thesis by blast
qed

lemma usersGet_plain:
  assumes "qp_count rq \<noteq> Some ''true''" and "\<not> truthy (qp_sort rq)"
      and "\<not> truthy (qp_select rq)" and "\<not> truthy (qp_filter rq)" and "\<not> truthy (qp_skip rq)"
  shows "\<exists>us. usersGet e g rq s = respond 200 ''OK'' (DUsers us)"
proof -
  let ?q = "buildQuery (jsonOr (parseJSONParam e (qp_where rq)) (JsObj [])) JsNull JsNull None
              (if truthy (qp_limit rq) then parseInt e (strOr (qp_limit rq) []) else None)"
  have "q_skip ?q = None" by (simp add: buildQuery_fields)
  from exec_no_skip[OF this] obtain us where us: "exec g ?q (users s) = Some us" by blast
  have "usersGet e g rq s = respond 200 ''OK'' (DUsers us)"
    using assms us by (simp add: usersGet_def Let_def parseJSONParam_def jsonOr_def)
  then show ?thesis by blast
qed

lemma pendingExact_iff:
  "pendingExact s uid \<longleftrightarrow>
   (\<forall>u\<in>set (users s). u_id u = uid \<longrightarrow>
        set (u_pendingTasks u) = set (openTasksOf uid (tasks s)))"
  by (simp add: pendingExact_def list_all_iff)

lemma map_key_updateFirst:
  "(\<And>d. key (f d) = key d) \<Longrightarrow> map key (updateFirst P f ds) = map key ds"
  by (induction ds) auto

lemma map_u_id_addPending: "map u_id (addPending a i us) = map u_id us"
  by (simp add: addPending_def map_key_updateFirst)

lemma map_u_id_pullPending: "map u_id (pullPending a i us) = map u_id us"
  by (simp add: pullPending_def map_key_updateFirst)

lemma addPending_map:
  "distinct (map u_id us) \<Longrightarrow>
   addPending a i us =
     map (\<lambda>u. if u_id u = a then u\<lparr>u_pendingTasks := addToSet i (u_pendingTasks u)\<rparr> else u) us"
  by (simp add: addPending_def updateFirst_distinct)

lemma pullPending_map:
  "distinct (map u_id us) \<Longrightarrow>
   pullPending a i us =
     map (\<lambda>u. if u_id u = a then u\<lparr>u_pendingTasks := pull i (u_pendingTasks u)\<rparr> else u) us"
  by (simp add: pullPending_def updateFirst_distinct)

lemma set_addToSet: "set (addToSet i xs) = insert i (set xs)"
  by (auto simp: addToSet_def)

lemma set_pull: "set (pull i xs) = set xs - {i}"
  by (auto simp: pull_def)

lemma in_addPending:
  assumes "distinct (map u_id us)" and "u' \<in> set (addPending a i us)"
  shows "\<exists>u\<in>set us. u_id u = u_id u' \<and>
           set (u_pendingTasks u') =
             (if u_id u = a then insert i (set (u_pendingTasks u)) else set (u_pendingTasks u))"
  using assms(2) unfolding addPending_map[OF assms(1)]
  by (auto simp: set_addToSet)

lemma in_pullPending:
  assumes "distinct (map u_id us)" and "u' \<in> set (pullPending a i us)"
  shows "\<exists>u\<in>set us. u_id u = u_id u' \<and>
           set (u_pendingTasks u') =
             (if u_id u = a then set (u_pendingTasks u) - {i} else set (u_pendingTasks u))"
  using assms(2) unfolding pullPending_map[OF assms(1)]
  by (auto simp: set_pull)

lemma in_open:
  "x \<in> set (openTasksOf uid ts) \<longleftrightarrow>
   (\<exists>t\<in>set ts. t_id t = x \<and> t_assignedUser t = uid \<and> \<not> t_completed t)"
  unfolding openTasksOf_def set_map set_filter image_iff by blast

lemma open_append:
  "set (openTasksOf uid (ts @ [t])) =
     set (openTasksOf uid ts) \<union>
       (if t_assignedUser t = uid \<and> \<not> t_completed t then {t_id t} else {})"
  by (simp add: openTasksOf_def)

lemma open_filter:
  "set (openTasksOf uid (filter (\<lambda>t. t_id t \<noteq> i) ts)) = set (openTasksOf uid ts) - {i}"
proof (rule set_eqI)
  fix x
  show "x \<in> set (openTasksOf uid (filter (\<lambda>t. t_id t \<noteq> i) ts)) \<longleftrightarrow>
        x \<in> set (openTasksOf uid ts) - {i}"
    unfolding Diff_iff in_open set_filter by blast
qed

lemma in_open_map:
  "x \<in> set (openTasksOf uid (map g ts)) \<longleftrightarrow>
   (\<exists>t\<in>set ts. t_id (g t) = x \<and> t_assignedUser (g t) = uid \<and> \<not> t_completed (g t))"
  unfolding in_open set_map by (rule bex_simps)

lemma open_replace:
  assumes "t_id new = i" and "i \<in> t_id ` set ts"
  shows "set (openTasksOf uid (map (\<lambda>t. if t_id t = i then new else t) ts)) =
     (set (openTasksOf uid ts) - {i}) \<union>
       (if t_assignedUser new = uid \<and> \<not> t_completed new then {i} else {})"
proof (rule set_eqI)
  fix x
  obtain t0 where t0: "t0 \<in> set ts" "t_id t0 = i" using assms(2) by blast
  have l: "x \<in> set (openTasksOf uid (map (\<lambda>t. if t_id t = i then new else t) ts)) \<longleftrightarrow>
        (\<exists>t\<in>set ts. (t_id t = i \<and> x = i \<and> t_assignedUser new = uid \<and> \<not> t_completed new) \<or>
                     (t_id t \<noteq> i \<and> x = t_id t \<and> t_assignedUser t = uid \<and> \<not> t_completed t))"
    unfolding in_open_map
  proof (rule bex_cong[OF refl])
    fix t
    show "(t_id (if t_id t = i then new else t) = x \<and>
           t_assignedUser (if t_id t = i then new else t) = uid \<and>
           \<not> t_completed (if t_id t = i then new else t)) =
          (t_id t = i \<and> x = i \<and> t_assignedUser new = uid \<and> \<not> t_completed new \<or>
           t_id t \<noteq> i \<and> x = t_id t \<and> t_assignedUser t = uid \<and> \<not> t_completed t)"
      using assms(1) by (cases "t_id t = i") (simp_all add: eq_commute[of x])
  qed
  have r: "x \<in> set (openTasksOf uid ts) - {i} \<longleftrightarrow>
        (\<exists>t\<in>set ts. t_id t \<noteq> i \<and> x = t_id t \<and> t_assignedUser t = uid \<and> \<not> t_completed t)"
    unfolding Diff_iff in_open by blast
  show "x \<in> set (openTasksOf uid (map (\<lambda>t. if t_id t = i then new else t) ts)) \<longleftrightarrow>
        x \<in> (set (openTasksOf uid ts) - {i}) \<union>
          (if t_assignedUser new = uid \<and> \<not> t_completed new then {i} else {})"
  proof (cases "t_assignedUser new = uid \<and> \<not> t_completed new")
    case True
    have "(\<exists>t\<in>set ts. t_id t = i \<and> x = i) \<longleftrightarrow> x = i" using t0 by blast
    then show ?thesis unfolding Un_iff l r using True by simp blast
  next
    case False
    then show ?thesis unfolding Un_iff l r by simp blast
  qed
qed

lemma open_unique:
  assumes "distinct (map t_id ts)" and "t \<in> set ts"
  shows "t_id t \<in> set (openTasksOf uid ts) \<longleftrightarrow> t_assignedUser t = uid \<and> \<not> t_completed t"
proof -
  have "t' = t" if "t' \<in> set ts" "t_id t' = t_id t" for t'
    using assms that by (meson distinct_map inj_onD)
  then show ?thesis unfolding in_open using assms(2) by blast
qed

lemma taskPost_success:
  assumes "taskPost e newId body s = (r, s')" and "successful r"
  shows "\<exists>saved. tasks s' = tasks s @ [saved] \<and> t_id saved = newId \<and>
           newId \<notin> set (map t_id (tasks s)) \<and>
           (t_assignedUser saved \<noteq> [] \<and> \<not> t_completed saved \<longrightarrow>
              users s' = addPending (t_assignedUser saved) newId (users s)) \<and>
           (\<not> (t_assignedUser saved \<noteq> [] \<and> \<not> t_completed saved) \<longrightarrow> users s' = users s)"
  using assms
  by (auto simp: taskPost_def successful_def respond_def serverError_def Let_def
      split: option.splits if_split_asm)

lemma taskDelete_success:
  assumes "taskDelete i s = (r, s')" and "successful r"
  shows "\<exists>task. findById t_id (tasks s) i = Some task \<and>
           tasks s' = deleteOne (\<lambda>t. t_id t = i) (tasks s) \<and>
           (t_assignedUser task \<noteq> [] \<longrightarrow>
              users s' = pullPending (t_assignedUser task) i (users s)) \<and>
           (t_assignedUser task = [] \<longrightarrow> users s' = users s)"
proof (cases "findById t_id (tasks s) i")
  case None
  then show ?thesis using assms by (auto simp: taskDelete_def successful_def respond_def)
next
  case (Some task)
  then show ?thesis using assms findById_key[OF Some]
    by (auto simp: taskDelete_def Let_def)
qed

lemma taskPut_success:
  assumes "taskPut e i body s = (r, s')" and "successful r"
  shows "\<exists>old saved. findById t_id (tasks s) i = Some old \<and>
           tasks s' = updateFirst (\<lambda>t. t_id t = i) (\<lambda>_. saved) (tasks s) \<and> t_id saved = i \<and>
           (\<exists>us1.
              (t_assignedUser old \<noteq> [] \<and>
                 (t_assignedUser old \<noteq> t_assignedUser saved \<or> t_completed old \<or>
                  t_completed saved) \<longrightarrow>
                 us1 = pullPending (t_assignedUser old) i (users s)) \<and>
              (\<not> (t_assignedUser old \<noteq> [] \<and>
                 (t_assignedUser old \<noteq> t_assignedUser saved \<or> t_completed old \<or>
                  t_completed saved)) \<longrightarrow> us1 = users s) \<and>
              (t_assignedUser saved \<noteq> [] \<and> \<not> t_completed saved \<longrightarrow>
                 users s' = addPending (t_assignedUser saved) i us1) \<and>
              (\<not> (t_assignedUser saved \<noteq> [] \<and> \<not> t_completed saved) \<longrightarrow> users s' = us1))"
proof (cases "findById t_id (tasks s) i")
  case None
  then show ?thesis using assms by (auto simp: taskPut_def successful_def respond_def)
next
  case (Some old)
  have k: "t_id old = i" using findById_key[OF Some] by simp
  show ?thesis using assms Some k
    unfolding taskPut_def
    by (auto simp: successful_def respond_def Let_def split: option.splits if_split_asm)
qed

lemma taskPost_preserves:
  assumes run: "taskPost e newId body s = (r, s')" and ok: "successful r"
      and uq: "uniqueIds s" and ne: "uid \<noteq> []" and ex: "pendingExact s uid"
  shows "pendingExact s' uid \<and> uniqueIds s'"
proof -
  from taskPost_success[OF run ok] obtain saved where
    t: "tasks s' = tasks s @ [saved]" and k: "t_id saved = newId" and
    fr: "newId \<notin> set (map t_id (tasks s))" and
    u1: "t_assignedUser saved \<noteq> [] \<and> \<not> t_completed saved \<Longrightarrow>
           users s' = addPending (t_assignedUser saved) newId (users s)" and
    u2: "\<not> (t_assignedUser saved \<noteq> [] \<and> \<not> t_completed saved) \<Longrightarrow> users s' = users s"
    by blast
  have du: "distinct (map u_id (users s))" and dt: "distinct (map t_id (tasks s))"
    using uq by (simp_all add: uniqueIds_def)
  have ids: "map u_id (users s') = map u_id (users s)"
    using u1 u2 by (cases "t_assignedUser saved \<noteq> [] \<and> \<not> t_completed saved")
      (simp_all add: map_u_id_addPending)
  have uq': "uniqueIds s'"
    using du dt fr ids by (simp add: uniqueIds_def t k)
  have O: "set (openTasksOf uid (tasks s')) =
        set (openTasksOf uid (tasks s)) \<union>
          (if t_assignedUser saved = uid \<and> \<not> t_completed saved then {newId} else {})"
    unfolding t open_append k ..
  have "set (u_pendingTasks u') = set (openTasksOf uid (tasks s'))"
    if m: "u' \<in> set (users s')" and i: "u_id u' = uid" for u'
  proof (cases "t_assignedUser saved \<noteq> [] \<and> \<not> t_completed saved")
    case True
    from in_addPending[OF du m[unfolded u1[OF True]]] obtain u where
      u: "u \<in> set (users s)" "u_id u = u_id u'" and
      p: "set (u_pendingTasks u') =
            (if u_id u = t_assignedUser saved then insert newId (set (u_pendingTasks u))
             else set (u_pendingTasks u))"
      by blast
    have "set (u_pendingTasks u) = set (openTasksOf uid (tasks s))"
      using ex u i by (simp add: pendingExact_iff)
    then show ?thesis using p O True u i by auto
  next
    case False
    have "set (u_pendingTasks u') = set (openTasksOf uid (tasks s))"
      using ex m i u2[OF False] by (simp add: pendingExact_iff)
    then show ?thesis using O False ne by auto
  qed
  then have "pendingExact s' uid" by (simp add: pendingExact_iff)
  with uq' show ?thesis by simp
qed

lemma taskDelete_preserves:
  assumes run: "taskDelete i s = (r, s')" and ok: "successful r"
      and uq: "uniqueIds s" and ne: "uid \<noteq> []" and ex: "pendingExact s uid"
  shows "pendingExact s' uid \<and> uniqueIds s'"
proof -
  from taskDelete_success[OF run ok] obtain task where
    f: "findById t_id (tasks s) i = Some task" and
    t0: "tasks s' = deleteOne (\<lambda>t. t_id t = i) (tasks s)" and
    u1: "t_assignedUser task \<noteq> [] \<Longrightarrow>
           users s' = pullPending (t_assignedUser task) i (users s)" and
    u2: "t_assignedUser task = [] \<Longrightarrow> users s' = users s"
    by blast
  have du: "distinct (map u_id (users s))" and dt: "distinct (map t_id (tasks s))"
    using uq by (simp_all add: uniqueIds_def)
  have t: "tasks s' = filter (\<lambda>t. t_id t \<noteq> i) (tasks s)"
    unfolding t0 by (rule deleteOne_distinct[OF dt])
  have mem: "task \<in> set (tasks s)" and k: "t_id task = i"
    using findById_key[OF f] by simp_all
  have ids: "map u_id (users s') = map u_id (users s)"
    using u1 u2 by (cases "t_assignedUser task \<noteq> []") (simp_all add: map_u_id_pullPending)
  have uq': "uniqueIds s'"
    using du dt ids by (simp add: uniqueIds_def t distinct_map_filter)
  have O: "set (openTasksOf uid (tasks s')) = set (openTasksOf uid (tasks s)) - {i}"
    unfolding t by (rule open_filter)
  have iO: "i \<in> set (openTasksOf uid (tasks s)) \<longleftrightarrow>
              t_assignedUser task = uid \<and> \<not> t_completed task"
    using open_unique[OF dt mem, of uid] k by simp
  have "set (u_pendingTasks u') = set (openTasksOf uid (tasks s'))"
    if m: "u' \<in> set (users s')" and i: "u_id u' = uid" for u'
  proof (cases "t_assignedUser task \<noteq> []")
    case True
    from in_pullPending[OF du m[unfolded u1[OF True]]] obtain u where
      u: "u \<in> set (users s)" "u_id u = u_id u'" and
      p: "set (u_pendingTasks u') =
            (if u_id u = t_assignedUser task then set (u_pendingTasks u) - {i}
             else set (u_pendingTasks u))"
      by blast
    have "set (u_pendingTasks u) = set (openTasksOf uid (tasks s))"
      using ex u i by (simp add: pendingExact_iff)
    then show ?thesis using p O iO u i by auto
  next
    case False
    have "set (u_pendingTasks u') = set (openTasksOf uid (tasks s))"
      using ex m i u2 False by (simp add: pendingExact_iff)
    then show ?thesis using O iO False ne by auto
  qed
  then have "pendingExact s' uid" by (simp add: pendingExact_iff)
  with uq' show ?thesis by simp
qed

lemma taskPut_preserves:
  assumes run: "taskPut e i body s = (r, s')" and ok: "successful r"
      and uq: "uniqueIds s" and ne: "uid \<noteq> []" and ex: "pendingExact s uid"
  shows "pendingExact s' uid \<and> uniqueIds s'"
proof -
  from taskPut_success[OF run ok] obtain old saved us1 where
    f: "findById t_id (tasks s) i = Some old" and
    t0: "tasks s' = updateFirst (\<lambda>t. t_id t = i) (\<lambda>_. saved) (tasks s)" and
    k': "t_id saved = i" and
    p1: "t_assignedUser old \<noteq> [] \<and>
           (t_assignedUser old \<noteq> t_assignedUser saved \<or> t_completed old \<or> t_completed saved)
         \<Longrightarrow> us1 = pullPending (t_assignedUser old) i (users s)" and
    p2: "\<not> (t_assignedUser old \<noteq> [] \<and>
           (t_assignedUser old \<noteq> t_assignedUser saved \<or> t_completed old \<or> t_completed saved))
         \<Longrightarrow> us1 = users s" and
    a1: "t_assignedUser saved \<noteq> [] \<and> \<not> t_completed saved \<Longrightarrow>
           users s' = addPending (t_assignedUser saved) i us1" and
    a2: "\<not> (t_assignedUser saved \<noteq> [] \<and> \<not> t_completed saved) \<Longrightarrow> users s' = us1"
    by blast
  have du: "distinct (map u_id (users s))" and dt: "distinct (map t_id (tasks s))"
    using uq by (simp_all add: uniqueIds_def)
  have mem: "old \<in> set (tasks s)" and k: "t_id old = i"
    using findById_key[OF f] by simp_all
  have t: "tasks s' = map (\<lambda>t. if t_id t = i then saved else t) (tasks s)"
    unfolding t0 by (rule updateFirst_distinct[OF dt])
  have ids1: "map u_id us1 = map u_id (users s)"
    using p1 p2
    by (cases "t_assignedUser old \<noteq> [] \<and>
           (t_assignedUser old \<noteq> t_assignedUser saved \<or> t_completed old \<or> t_completed saved)")
       (simp_all add: map_u_id_pullPending)
  have du1: "distinct (map u_id us1)" using du ids1 by simp
  have ids: "map u_id (users s') = map u_id (users s)"
    using a1 a2 ids1
    by (cases "t_assignedUser saved \<noteq> [] \<and> \<not> t_completed saved")
       (simp_all add: map_u_id_addPending)
  have tid: "map t_id (tasks s') = map t_id (tasks s)"
    unfolding t using k' by (induction "tasks s") auto
  have uq': "uniqueIds s'"
    using du dt ids tid by (simp add: uniqueIds_def)
  have O: "set (openTasksOf uid (tasks s')) =
        (set (openTasksOf uid (tasks s)) - {i}) \<union>
          (if t_assignedUser saved = uid \<and> \<not> t_completed saved then {i} else {})"
    unfolding t using mem k by (intro open_replace[OF k']) force
  have iO: "i \<in> set (openTasksOf uid (tasks s)) \<longleftrightarrow>
              t_assignedUser old = uid \<and> \<not> t_completed old"
    using open_unique[OF dt mem, of uid] k by simp
  have step1: "\<exists>u\<in>set (users s). u_id u = u_id v \<and>
        set (u_pendingTasks v) =
          (if t_assignedUser old \<noteq> [] \<and>
              (t_assignedUser old \<noteq> t_assignedUser saved \<or> t_completed old \<or> t_completed saved) \<and>
              u_id u = t_assignedUser old
           then set (u_pendingTasks u) - {i} else set (u_pendingTasks u))"
    if v: "v \<in> set us1" for v
  proof (cases "t_assignedUser old \<noteq> [] \<and>
           (t_assignedUser old \<noteq> t_assignedUser saved \<or> t_completed old \<or> t_completed saved)")
    case True
    from in_pullPending[OF du v[unfolded p1[OF True]]] show ?thesis using True by auto
  next
    case False
    then show ?thesis using v p2[OF False] by auto
  qed
  have "set (u_pendingTasks u') = set (openTasksOf uid (tasks s'))"
    if m: "u' \<in> set (users s')" and i: "u_id u' = uid" for u'
  proof -
    have "\<exists>v\<in>set us1. u_id v = u_id u' \<and>
        set (u_pendingTasks u') =
          (if t_assignedUser saved \<noteq> [] \<and> \<not> t_completed saved \<and> u_id v = t_assignedUser saved
           then insert i (set (u_pendingTasks v)) else set (u_pendingTasks v))"
    proof (cases "t_assignedUser saved \<noteq> [] \<and> \<not> t_completed saved")
      case True
      from in_addPending[OF du1 m[unfolded a1[OF True]]] show ?thesis using True by auto
    next
      case False
      then show ?thesis using m a2[OF False] by auto
    qed
    then obtain v where v: "v \<in> set us1" "u_id v = uid" and
      pv: "set (u_pendingTasks u') =
          (if t_assignedUser saved \<noteq> [] \<and> \<not> t_completed saved \<and> uid = t_assignedUser saved
           then insert i (set (u_pendingTasks v)) else set (u_pendingTasks v))"
      using i by auto
    from step1[OF v(1)] obtain u where u: "u \<in> set (users s)" "u_id u = uid" and
      pu: "set (u_pendingTasks v) =
          (if t_assignedUser old \<noteq> [] \<and>
              (t_assignedUser old \<noteq> t_assignedUser saved \<or> t_completed old \<or> t_completed saved) \<and>
              uid = t_assignedUser old
           then set (u_pendingTasks u) - {i} else set (u_pendingTasks u))"
      using v(2) by auto
    have e0: "set (u_pendingTasks u) = set (openTasksOf uid (tasks s))"
      using ex u by (simp add: pendingExact_iff)
    show ?thesis
    proof (cases "t_assignedUser saved = uid \<and> \<not> t_completed saved")
      case True
      then show ?thesis unfolding O pv pu e0 using ne by auto
    next
      case False
      then show ?thesis unfolding O pv pu e0 using ne iO by auto
    qed
  qed
  then have "pendingExact s' uid" by (simp add: pendingExact_iff)
  with uq' show ?thesis by simp
qed

lemma runTaskOp_preserves:
  assumes "runTaskOp e op s = (r, s')" and "successful r"
      and "uniqueIds s" and "uid \<noteq> []" and "pendingExact s uid"
  shows "pendingExact s' uid \<and> uniqueIds s'"
proof (cases op)
  case (TaskPOST newId body)
  then show ?thesis using assms taskPost_preserves by simp
next
  case (TaskPUT i body)
  then show ?thesis using assms taskPut_preserves by simp
next
  case (TaskDELETE i)
  then show ?thesis using assms taskDelete_preserves by simp
qed

lemma runTaskOps_preserves:
  "runTaskOps e ops s = Some s' \<Longrightarrow> uniqueIds s \<Longrightarrow> uid \<noteq> [] \<Longrightarrow> pendingExact s uid \<Longrightarrow>
   pendingExact s' uid \<and> uniqueIds s'"
proof (induction ops arbitrary: s)
  case Nil
  then show ?case by simp
next
  case (Cons op ops)
  obtain r s1 where r: "runTaskOp e op s = (r, s1)" by (cases "runTaskOp e op s")
  with Cons.prems(1) have ok: "successful r" and rest: "runTaskOps e ops s1 = Some s'"
    by (simp_all split: if_splits)
  from runTaskOp_preserves[OF r ok Cons.prems(2,3,4)]
  have "pendingExact s1 uid" "uniqueIds s1" by simp_all
  from Cons.IH[OF rest this(2) Cons.prems(3) this(1)] show ?case .
qed

lemma userDelete_tasks:
  assumes "findById u_id (users s) i = Some u"
  shows "status (fst (userDelete i s)) = 200 \<and>
         tasks (snd (userDelete i s)) =
           map (\<lambda>t. if t_assignedUser t = i
                    then t\<lparr>t_assignedUser := [], t_assignedUserName := ''unassigned''\<rparr> else t)
             (tasks s) \<and>
         users (snd (userDelete i s)) = deleteOne (\<lambda>u. u_id u = i) (users s)"
  using assms by (simp add: userDelete_def Let_def respond_def updateMany_def)

section \<open>Task operations keep a user's pending list exact\<close>

text \<open>
  Claim C1, as the routes implement it. Let \<open>uid\<close> be the id of a user whose pending
  list holds exactly the ids of the open tasks assigned to \<open>uid\<close>. Every sequence of
  task POST, PUT and DELETE requests that all succeed leaves that user's pending list
  holding exactly the ids of the tasks whose \<^verbatim>\<open>assignedUser\<close> is \<open>uid\<close> and whose
  \<^verbatim>\<open>completed\<close> is false. The task routes add and pull only the id of the task they
  handle: they keep an exact list exact, and do not repair one that is not. The store
  keeps ids unique, and a user id is never the empty string.
\<close>

theorem pendingTasks_exact_after_task_ops:
  assumes "runTaskOps e ops s = Some s'"
      and "uniqueIds s" and "uid \<noteq> []" and "pendingExact s uid"
  shows "pendingExact s' uid"
  using runTaskOps_preserves[OF assms] by simp

theorem pendingTasks_exact_after_task_ops_witness:
  "(\<exists>s'. runTaskOps sampleEnv sampleOps sampleStore = Some s' \<and>
         map u_pendingTasks (users s') = [[], [''t2'']] \<and>
         map (\<lambda>t. (t_id t, t_assignedUser t, t_completed t)) (tasks s') =
           [(''t1'', ''u1'', True), (''t2'', ''u2'', False), (''t3'', [], True)] \<and>
         pendingExact s' ''u1'' \<and> pendingExact s' ''u2'')"
proof -
  let ?s' = "\<lparr>users = [alice\<lparr>u_pendingTasks := []\<rparr>, bob\<lparr>u_pendingTasks := [''t2'']\<rparr>],
             tasks = [task1\<lparr>t_completed := True\<rparr>,
                      task2\<lparr>t_deadline := 1700000000000, t_completed := False,
                            t_assignedUser := ''u2'', t_assignedUserName := ''Bob''\<rparr>,
                      task3]\<rparr>"
  have low: "toLowerCase ''false'' = ''false''" by code_simp
  have run: "runTaskOps sampleEnv sampleOps sampleStore = Some ?s'"
    by (simp add: sampleOps_def taskPost_def taskPut_def taskDelete_def sample_defs findById_def
          findOne_def parseDeadline_def Let_def addPending_def pullPending_def addToSet_def
          pull_def successful_def respond_def low)
  have uq: "uniqueIds sampleStore"
    by (simp add: uniqueIds_def sample_defs)
  have e1: "pendingExact sampleStore ''u1''" and e2: "pendingExact sampleStore ''u2''"
    by (simp_all add: pendingExact_def openTasksOf_def sample_defs)
  have n1: "''u1'' \<noteq> []" and n2: "''u2'' \<noteq> []" by simp_all
  note r1 = pendingTasks_exact_after_task_ops[OF run uq n1 e1]
  note r2 = pendingTasks_exact_after_task_ops[OF run uq n2 e2]
  have a: "map u_pendingTasks (users ?s') = [[], [''t2'']]"
    by simp
  have b: "map (\<lambda>t. (t_id t, t_assignedUser t, t_completed t)) (tasks ?s') =
           [(''t1'', ''u1'', True), (''t2'', ''u2'', False), (''t3'', [], True)]"
    by (simp add: sample_defs)
  show ?thesis
    by (rule exI[of _ ?s'], intro conjI, rule run, rule a, rule b, rule r1, rule r2)
qed

text \<open>
  Claim C1 as stated fails from a store the routes themselves build: a user created
  with a pending entry that names no task keeps that entry through every task
  operation, so after a successful POST /api/tasks for that user the pending list is
  not the list of the user's open tasks.
\<close>

theorem pendingTasks_not_repaired:
  "userPost sampleEnv ''u1''
       ((userReq ''Alice'' ''alice@example.org'')\<lparr>ub_pendingTasks := PTArray [''ghost'']\<rparr>)
       emptyStore
     = (respond 201 ''User created''
          (DUser \<lparr>u_id = ''u1'', u_name = ''Alice'', u_email = ''alice@example.org'',
                  u_pendingTasks = [''ghost''], u_dateCreated = 1762128000000\<rparr>),
        \<lparr>users = [\<lparr>u_id = ''u1'', u_name = ''Alice'', u_email = ''alice@example.org'',
                   u_pendingTasks = [''ghost''], u_dateCreated = 1762128000000\<rparr>],
         tasks = []\<rparr>) \<and>
   runTaskOps sampleEnv
       [TaskPOST ''t1'' ((taskReq ''notes'' ''1700000000000'')\<lparr>b_assignedUser := Some ''u1''\<rparr>)]
       \<lparr>users = [\<lparr>u_id = ''u1'', u_name = ''Alice'', u_email = ''alice@example.org'',
                  u_pendingTasks = [''ghost''], u_dateCreated = 1762128000000\<rparr>],
        tasks = []\<rparr>
     = Some \<lparr>users = [\<lparr>u_id = ''u1'', u_name = ''Alice'', u_email = ''alice@example.org'',
                       u_pendingTasks = [''ghost'', ''t1''], u_dateCreated = 1762128000000\<rparr>],
             tasks = [\<lparr>t_id = ''t1'', t_name = ''notes'', t_description = [],
                       t_deadline = 1700000000000, t_completed = False,
                       t_assignedUser = ''u1'', t_assignedUserName = ''Alice''\<rparr>]\<rparr> \<and>
   \<not> pendingExact
        \<lparr>users = [\<lparr>u_id = ''u1'', u_name = ''Alice'', u_email = ''alice@example.org'',
                   u_pendingTasks = [''ghost'', ''t1''], u_dateCreated = 1762128000000\<rparr>],
         tasks = [\<lparr>t_id = ''t1'', t_name = ''notes'', t_description = [],
                   t_deadline = 1700000000000, t_completed = False,
                   t_assignedUser = ''u1'', t_assignedUserName = ''Alice''\<rparr>]\<rparr>
        ''u1''"
proof -
  have a: "userPost sampleEnv ''u1''
       ((userReq ''Alice'' ''alice@example.org'')\<lparr>ub_pendingTasks := PTArray [''ghost'']\<rparr>)
       emptyStore
     = (respond 201 ''User created''
          (DUser \<lparr>u_id = ''u1'', u_name = ''Alice'', u_email = ''alice@example.org'',
                  u_pendingTasks = [''ghost''], u_dateCreated = 1762128000000\<rparr>),
        \<lparr>users = [\<lparr>u_id = ''u1'', u_name = ''Alice'', u_email = ''alice@example.org'',
                   u_pendingTasks = [''ghost''], u_dateCreated = 1762128000000\<rparr>],
         tasks = []\<rparr>)"
    by (simp add: userPost_def userReq_def emptyStore_def sampleEnv_def findOne_def Let_def)
  have b: "runTaskOps sampleEnv
       [TaskPOST ''t1'' ((taskReq ''notes'' ''1700000000000'')\<lparr>b_assignedUser := Some ''u1''\<rparr>)]
       \<lparr>users = [\<lparr>u_id = ''u1'', u_name = ''Alice'', u_email = ''alice@example.org'',
                  u_pendingTasks = [''ghost''], u_dateCreated = 1762128000000\<rparr>],
        tasks = []\<rparr>
     = Some \<lparr>users = [\<lparr>u_id = ''u1'', u_name = ''Alice'', u_email = ''alice@example.org'',
                       u_pendingTasks = [''ghost'', ''t1''], u_dateCreated = 1762128000000\<rparr>],
             tasks = [\<lparr>t_id = ''t1'', t_name = ''notes'', t_description = [],
                       t_deadline = 1700000000000, t_completed = False,
                       t_assignedUser = ''u1'', t_assignedUserName = ''Alice''\<rparr>]\<rparr>"
    by (simp add: taskPost_def taskReq_def sampleEnv_def findById_def findOne_def
          parseDeadline_def Let_def addPending_def addToSet_def successful_def respond_def)
  have c: "\<not> pendingExact
        \<lparr>users = [\<lparr>u_id = ''u1'', u_name = ''Alice'', u_email = ''alice@example.org'',
                   u_pendingTasks = [''ghost'', ''t1''], u_dateCreated = 1762128000000\<rparr>],
         tasks = [\<lparr>t_id = ''t1'', t_name = ''notes'', t_description = [],
                   t_deadline = 1700000000000, t_completed = False,
                   t_assignedUser = ''u1'', t_assignedUserName = ''Alice''\<rparr>]\<rparr>
        ''u1''"
    by (simp add: pendingExact_def openTasksOf_def)
  show ?thesis by (rule conjI[OF a conjI[OF b c]])
qed

section \<open>A renamed user and the names stored on tasks\<close>

text \<open>
  Claim C2 does not hold for PUT /api/users/:id. In \<open>sampleStore\<close> every task carries
  the name of its assignee. Renaming Alice to Alicia while keeping her pending list
  succeeds, and afterwards the tasks assigned to her still carry the name Alice:
  the handler writes the new name only to the tasks added to the pending list.
\<close>

theorem rename_leaves_stale_name:
  "list_all (nameInSync sampleStore) (tasks sampleStore) \<and>
   status (fst (userPut sampleEnv ''u1'' renameBody sampleStore)) = 200 \<and>
   map u_name (users (snd (userPut sampleEnv ''u1'' renameBody sampleStore)))
     = [''Alicia'', ''Bob''] \<and>
   map (\<lambda>t. (t_assignedUser t, t_assignedUserName t))
       (tasks (snd (userPut sampleEnv ''u1'' renameBody sampleStore)))
     = [(''u1'', ''Alice''), (''u1'', ''Alice''), ([], ''unassigned'')] \<and>
   \<not> list_all (nameInSync (snd (userPut sampleEnv ''u1'' renameBody sampleStore)))
         (tasks (snd (userPut sampleEnv ''u1'' renameBody sampleStore)))"
proof -
  have eq: "userPut sampleEnv ''u1'' renameBody sampleStore =
     (respond 200 ''User updated'' (DUser (alice\<lparr>u_name := ''Alicia''\<rparr>)),
      sampleStore\<lparr>users := [alice\<lparr>u_name := ''Alicia''\<rparr>, bob]\<rparr>)"
    by (simp add: userPut_def renameBody_def sample_defs findById_def findOne_def Let_def
          updateMany_def)
  have before: "list_all (nameInSync sampleStore) (tasks sampleStore)"
    by (simp add: nameInSync_def sample_defs findById_def findOne_def)
  show ?thesis unfolding eq using before
    by (simp add: respond_def nameInSync_def sample_defs findById_def findOne_def)
qed

theorem rename_leaves_stale_name_witness:
  "status (fst (userPut sampleEnv ''u1'' renameBody sampleStore)) = 200 \<and>
   \<not> list_all (nameInSync (snd (userPut sampleEnv ''u1'' renameBody sampleStore)))
         (tasks (snd (userPut sampleEnv ''u1'' renameBody sampleStore)))"
  using rename_leaves_stale_name by blast

section \<open>User PUT reconciles the tasks with the new pending list\<close>

text \<open>
  Claim C3. After a successful PUT /api/users/:id, every task whose id is in the new
  pending list and not in the old one has \<^verbatim>\<open>assignedUser\<close> set to this user's id,
  \<^verbatim>\<open>assignedUserName\<close> to the name given in the request and \<^verbatim>\<open>completed\<close> to false; every
  task whose id is in the old list and not in the new one is unassigned (empty
  \<^verbatim>\<open>assignedUser\<close>, name \<^verbatim>\<open>unassigned\<close>) if its \<^verbatim>\<open>assignedUser\<close> is this user's id, and
  is left as it was otherwise; every other task is left as it was.
\<close>

theorem userPut_reconcile:
  assumes "userPut e i body s = (r, s')" and "status r = 200"
  shows "\<exists>old n. findById u_id (users s) i = Some old \<and> ub_name body = Some n \<and> n \<noteq> [] \<and>
           tasks s' =
             map (\<lambda>t. if t_id t \<in> set (normalizePending (ub_pendingTasks body)) \<and>
                          t_id t \<notin> set (u_pendingTasks old)
                       then t\<lparr>t_assignedUser := i, t_assignedUserName := n, t_completed := False\<rparr>
                       else if t_id t \<in> set (u_pendingTasks old) \<and>
                               t_id t \<notin> set (normalizePending (ub_pendingTasks body)) \<and>
                               t_assignedUser t = i
                       then t\<lparr>t_assignedUser := [], t_assignedUserName := ''unassigned''\<rparr>
                       else t)
               (tasks s)"
proof -
  obtain old where old: "findById u_id (users s) i = Some old"
    using assms by (cases "findById u_id (users s) i")
      (auto simp: userPut_def respond_def split: if_splits)
  obtain n where n: "ub_name body = Some n" "n \<noteq> []"
    using assms by (cases "ub_name body") (auto simp: userPut_def respond_def split: if_splits)
  have "tasks s' =
             map (\<lambda>t. if t_id t \<in> set (normalizePending (ub_pendingTasks body)) \<and>
                          t_id t \<notin> set (u_pendingTasks old)
                       then t\<lparr>t_assignedUser := i, t_assignedUserName := n, t_completed := False\<rparr>
                       else if t_id t \<in> set (u_pendingTasks old) \<and>
                               t_id t \<notin> set (normalizePending (ub_pendingTasks body)) \<and>
                               t_assignedUser t = i
                       then t\<lparr>t_assignedUser := [], t_assignedUserName := ''unassigned''\<rparr>
                       else t)
               (tasks s)"
    unfolding userPut_tasks[OF assms old n(1)] updateMany_def map_map
    by (rule map_cong) auto
  with old n show ?thesis by blast
qed

theorem userPut_reconcile_witness:
  "status (fst (userPut sampleEnv ''u1''
       ((userReq ''Alicia'' ''alice@example.org'')\<lparr>ub_pendingTasks := PTArray [''t3'']\<rparr>)
       sampleStore)) = 200 \<and>
   tasks (snd (userPut sampleEnv ''u1''
       ((userReq ''Alicia'' ''alice@example.org'')\<lparr>ub_pendingTasks := PTArray [''t3'']\<rparr>)
       sampleStore)) =
     [task1\<lparr>t_assignedUser := [], t_assignedUserName := ''unassigned''\<rparr>,
      task2,
      task3\<lparr>t_assignedUser := ''u1'', t_assignedUserName := ''Alicia'', t_completed := False\<rparr>]"
proof -
  let ?b = "(userReq ''Alicia'' ''alice@example.org'')\<lparr>ub_pendingTasks := PTArray [''t3'']\<rparr>"
  obtain r s' where rs: "userPut sampleEnv ''u1'' ?b sampleStore = (r, s')"
    by (cases "userPut sampleEnv ''u1'' ?b sampleStore")
  have "status (fst (userPut sampleEnv ''u1'' ?b sampleStore)) = 200"
    by (simp add: userPut_def sample_defs findById_def findOne_def Let_def respond_def)
  then have st: "status r = 200" using rs by simp
  from userPut_reconcile[OF rs st] obtain old n where
    o: "findById u_id (users sampleStore) ''u1'' = Some old" "ub_name ?b = Some n" and
    t: "tasks s' =
             map (\<lambda>t. if t_id t \<in> set (normalizePending (ub_pendingTasks ?b)) \<and>
                          t_id t \<notin> set (u_pendingTasks old)
                       then t\<lparr>t_assignedUser := ''u1'', t_assignedUserName := n, t_completed := False\<rparr>
                       else if t_id t \<in> set (u_pendingTasks old) \<and>
                               t_id t \<notin> set (normalizePending (ub_pendingTasks ?b)) \<and>
                               t_assignedUser t = ''u1''
                       then t\<lparr>t_assignedUser := [], t_assignedUserName := ''unassigned''\<rparr>
                       else t)
               (tasks sampleStore)"
    by blast
  have old: "old = alice" and n: "n = ''Alicia''"
    using o by (simp_all add: sample_defs findById_def findOne_def)
  show ?thesis using st rs t unfolding old n by (simp add: sample_defs)
qed

section \<open>Task PUT and the pending list of the prior assignee\<close>

text \<open>
  Claim C4. A successful PUT /api/tasks/:id on a task with a prior assignee removes
  the task's id from that user's pending list exactly when the assignee changed
  (which includes becoming unassigned), or the task was completed before, or it is
  completed now. The list of the prior assignee is then the old one without the id;
  when the assignee is kept and the task is reopened, the id is appended again by the
  later add step. When the assignee is unchanged and the task was and stays open,
  nothing is removed: every entry of the old list is kept (the id is appended only if
  it was missing).
\<close>

theorem taskPut_prior_assignee:
  assumes "taskPut e i body s = (r, s')" and "status r = 200"
      and "findById t_id (tasks s) i = Some old"
      and "t_assignedUser old \<noteq> []"
      and "findById u_id (users s) (t_assignedUser old) = Some u"
  shows "\<exists>t' u'. data r = DTask t' \<and>
           t_assignedUser t' = (case b_assignedUser body of None \<Rightarrow> t_assignedUser old | Some a \<Rightarrow> a) \<and>
           t_completed t' = parseBoolean (b_completed body) (t_completed old) \<and>
           findById u_id (users s') (t_assignedUser old) = Some u' \<and>
           u' = u\<lparr>u_pendingTasks := u_pendingTasks u'\<rparr> \<and>
           (t_assignedUser t' \<noteq> t_assignedUser old \<or> t_completed t' \<longrightarrow>
              u_pendingTasks u' = removeAll i (u_pendingTasks u)) \<and>
           (t_assignedUser t' = t_assignedUser old \<and> t_completed old \<and> \<not> t_completed t' \<longrightarrow>
              u_pendingTasks u' = removeAll i (u_pendingTasks u) @ [i]) \<and>
           (t_assignedUser t' = t_assignedUser old \<and> \<not> t_completed old \<and> \<not> t_completed t' \<longrightarrow>
              u_pendingTasks u' =
                (if i \<in> set (u_pendingTasks u) then u_pendingTasks u else u_pendingTasks u @ [i]))"
  using assms findById_key[OF assms(3)]
  by (auto simp: taskPut_def Let_def respond_def findById_addPending findById_pullPending
        pull_removeAll addToSet_def
      split: option.splits if_splits)

theorem taskPut_prior_assignee_witness:
  "status (fst (taskPut sampleEnv ''t1''
       ((taskReq ''report'' ''1700000000000'')\<lparr>b_completed := JString ''TRUE''\<rparr>) sampleStore)) = 200 \<and>
   map u_pendingTasks (users (snd (taskPut sampleEnv ''t1''
       ((taskReq ''report'' ''1700000000000'')\<lparr>b_completed := JString ''TRUE''\<rparr>) sampleStore)))
     = [[], []] \<and>
   map u_pendingTasks (users (snd (taskPut sampleEnv ''t1''
       (taskReq ''report'' ''1700000000000'') sampleStore))) = [[''t1''], []]"
proof -
  let ?b = "(taskReq ''report'' ''1700000000000'')\<lparr>b_completed := JString ''TRUE''\<rparr>"
  let ?c = "taskReq ''report'' ''1700000000000''"
  have low: "toLowerCase ''TRUE'' = ''true''"
    by code_simp
  have eb: "taskPut sampleEnv ''t1'' ?b sampleStore =
     (respond 200 ''Task updated'' (DTask (task1\<lparr>t_completed := True\<rparr>)),
      \<lparr>users = [alice\<lparr>u_pendingTasks := []\<rparr>, bob],
       tasks = [task1\<lparr>t_completed := True\<rparr>, task2, task3]\<rparr>)"
    by (simp add: taskPut_def sample_defs findById_def findOne_def parseDeadline_def Let_def
         addPending_def pullPending_def addToSet_def pull_def low)
  have ec: "taskPut sampleEnv ''t1'' ?c sampleStore =
     (respond 200 ''Task updated'' (DTask task1), sampleStore)"
    by (simp add: taskPut_def sample_defs findById_def findOne_def parseDeadline_def Let_def
         addPending_def pullPending_def addToSet_def pull_def)
  have st: "status (respond 200 ''Task updated'' d) = 200" for d
    by (simp add: respond_def)
  have old: "findById t_id (tasks sampleStore) ''t1'' = Some task1"
    and ne: "t_assignedUser task1 \<noteq> []"
    and u: "findById u_id (users sampleStore) (t_assignedUser task1) = Some alice"
    by (simp_all add: sample_defs findById_def findOne_def)
  from taskPut_prior_assignee[OF eb st old ne u]
  obtain u' where 1: "findById u_id (users (\<lparr>users = [alice\<lparr>u_pendingTasks := []\<rparr>, bob],
       tasks = [task1\<lparr>t_completed := True\<rparr>, task2, task3]\<rparr>)) (t_assignedUser task1) = Some u'"
     "u_pendingTasks u' = removeAll ''t1'' (u_pendingTasks alice)"
    by (auto simp: low respond_def taskReq_def)
  from taskPut_prior_assignee[OF ec st old ne u]
  obtain u'' where 2: "findById u_id (users sampleStore) (t_assignedUser task1) = Some u''"
     "u_pendingTasks u'' = (if ''t1'' \<in> set (u_pendingTasks alice) then u_pendingTasks alice
                            else u_pendingTasks alice @ [''t1''])"
    by (auto simp: respond_def taskReq_def task1_def)
  show ?thesis unfolding eb ec using 1 2 by (simp add: respond_def sample_defs)
qed

section \<open>The deadline of a task\<close>

text \<open>
  Claim C5, as the routes implement it. In POST /api/tasks, and in PUT /api/tasks/:id
  on a task that exists, a deadline that is truthy is read as epoch milliseconds
  whenever \<^verbatim>\<open>Number(deadline)\<close> is not NaN (a negative or a decimal number too: it is
  truncated towards zero), and otherwise parsed as a date string. If that gives a valid
  instant, the name is not empty and the assignee, if any, exists, the request succeeds
  and stores that instant; the stored deadline of every successful request is that
  instant. A deadline that gives no valid instant is answered with 400 and the store is
  left as it was, and so is a falsy deadline (absent, \<^verbatim>\<open>null\<close>, \<^verbatim>\<open>false\<close>, the number 0,
  the empty string), by the required-fields check. With
  \<^verbatim>\<open>Number("1700000000000") = 1700000000000\<close> that instant is stored; with
  \<^verbatim>\<open>"not-a-date"\<close>, which is neither a number nor a date, the answer is 400.
\<close>

theorem deadline_policy:
  "(truthy (b_name body) \<and> jsTruthy (b_deadline body) \<and>
    parseDeadline e (b_deadline body) \<noteq> None \<and>
    (strOr (b_assignedUser body) [] = [] \<or>
     findById u_id (users s) (strOr (b_assignedUser body) []) \<noteq> None) \<and>
    newId \<notin> set (map t_id (tasks s)) \<longrightarrow>
      status (fst (taskPost e newId body s)) = 201 \<and>
      (\<exists>k. tasks (snd (taskPost e newId body s)) = tasks s @ [k] \<and> t_id k = newId \<and>
           parseDeadline e (b_deadline body) = Some (t_deadline k))) \<and>
   (\<forall>old. findById t_id (tasks s) i = Some old \<and>
      truthy (b_name body) \<and> jsTruthy (b_deadline body) \<and>
      parseDeadline e (b_deadline body) \<noteq> None \<and>
      ((case b_assignedUser body of None \<Rightarrow> t_assignedUser old | Some a \<Rightarrow> a) = [] \<or>
       findById u_id (users s)
         (case b_assignedUser body of None \<Rightarrow> t_assignedUser old | Some a \<Rightarrow> a) \<noteq> None) \<longrightarrow>
      status (fst (taskPut e i body s)) = 200 \<and>
      (\<exists>k. findById t_id (tasks (snd (taskPut e i body s))) i = Some k \<and>
           parseDeadline e (b_deadline body) = Some (t_deadline k))) \<and>
   (parseDeadline e (b_deadline body) = None \<longrightarrow>
      status (fst (taskPost e newId body s)) = 400 \<and> snd (taskPost e newId body s) = s) \<and>
   (parseDeadline e (b_deadline body) = None \<and> findById t_id (tasks s) i \<noteq> None \<longrightarrow>
      status (fst (taskPut e i body s)) = 400 \<and> snd (taskPut e i body s) = s) \<and>
   (\<not> jsTruthy (b_deadline body) \<longrightarrow>
      taskPost e newId body s =
        (respond 400 ''Task name and deadline are required'' DEmptyObject, s) \<and>
      (findById t_id (tasks s) i \<noteq> None \<longrightarrow>
         taskPut e i body s =
           (respond 400 ''Task name and deadline are required'' DEmptyObject, s))) \<and>
   (\<forall>q. toNumber e (b_deadline body) = JFin q \<and> \<bar>q\<bar> \<le> 8640000000000000 \<longrightarrow>
      parseDeadline e (b_deadline body) = Some (if q < 0 then \<lceil>q\<rceil> else \<lfloor>q\<rfloor>)) \<and>
   (\<not> isNaN (toNumber e (b_deadline body)) \<longrightarrow>
      parseDeadline e (b_deadline body) = newDateOfNumber (toNumber e (b_deadline body))) \<and>
   (\<forall>x. b_deadline body = JString x \<and> isNaN (jsNumber e x) \<longrightarrow>
      parseDeadline e (b_deadline body) = dateParse e x) \<and>
   (\<forall>r s'. taskPost e newId body s = (r, s') \<and> status r = 201 \<longrightarrow>
      (\<exists>k. data r = DTask k \<and> t_id k = newId \<and> k \<in> set (tasks s') \<and>
           jsTruthy (b_deadline body) \<and>
           parseDeadline e (b_deadline body) = Some (t_deadline k))) \<and>
   (\<forall>r s'. taskPut e i body s = (r, s') \<and> status r = 200 \<longrightarrow>
      (\<exists>k. data r = DTask k \<and> findById t_id (tasks s') i = Some k \<and>
           jsTruthy (b_deadline body) \<and>
           parseDeadline e (b_deadline body) = Some (t_deadline k))) \<and>
   (b_deadline body = JString ''1700000000000'' \<and>
    jsNumber e ''1700000000000'' = JFin 1700000000000 \<and> truthy (b_name body) \<and>
    \<not> truthy (b_assignedUser body) \<and> newId \<notin> set (map t_id (tasks s)) \<longrightarrow>
      status (fst (taskPost e newId body s)) = 201 \<and>
      (\<exists>k. tasks (snd (taskPost e newId body s)) = tasks s @ [k] \<and> t_id k = newId \<and>
           t_deadline k = 1700000000000)) \<and>
   (b_deadline body = JString ''not-a-date'' \<and> jsNumber e ''not-a-date'' = JNaN \<and>
    dateParse e ''not-a-date'' = None \<longrightarrow>
      status (fst (taskPost e newId body s)) = 400 \<and> snd (taskPost e newId body s) = s)"
proof -
  have p1: "truthy (b_name body) \<and> jsTruthy (b_deadline body) \<and>
    parseDeadline e (b_deadline body) \<noteq> None \<and>
    (strOr (b_assignedUser body) [] = [] \<or>
     findById u_id (users s) (strOr (b_assignedUser body) []) \<noteq> None) \<and>
    newId \<notin> set (map t_id (tasks s)) \<longrightarrow>
      status (fst (taskPost e newId body s)) = 201 \<and>
      (\<exists>k. tasks (snd (taskPost e newId body s)) = tasks s @ [k] \<and> t_id k = newId \<and>
           parseDeadline e (b_deadline body) = Some (t_deadline k))"
  proof (intro impI, elim conjE)
    assume a: "truthy (b_name body)" "jsTruthy (b_deadline body)"
      "parseDeadline e (b_deadline body) \<noteq> None"
      "strOr (b_assignedUser body) [] = [] \<or>
         findById u_id (users s) (strOr (b_assignedUser body) []) \<noteq> None"
      "newId \<notin> set (map t_id (tasks s))"
    from a(3) obtain t where t: "parseDeadline e (b_deadline body) = Some t" by blast
    from taskPost_valid_deadline[OF a(1,2) t a(4,5)]
    show "status (fst (taskPost e newId body s)) = 201 \<and>
      (\<exists>k. tasks (snd (taskPost e newId body s)) = tasks s @ [k] \<and> t_id k = newId \<and>
           parseDeadline e (b_deadline body) = Some (t_deadline k))"
      unfolding t by auto
  qed
  have p2: "\<forall>old. findById t_id (tasks s) i = Some old \<and>
      truthy (b_name body) \<and> jsTruthy (b_deadline body) \<and>
      parseDeadline e (b_deadline body) \<noteq> None \<and>
      ((case b_assignedUser body of None \<Rightarrow> t_assignedUser old | Some a \<Rightarrow> a) = [] \<or>
       findById u_id (users s)
         (case b_assignedUser body of None \<Rightarrow> t_assignedUser old | Some a \<Rightarrow> a) \<noteq> None) \<longrightarrow>
      status (fst (taskPut e i body s)) = 200 \<and>
      (\<exists>k. findById t_id (tasks (snd (taskPut e i body s))) i = Some k \<and>
           parseDeadline e (b_deadline body) = Some (t_deadline k))"
  proof (intro allI impI, elim conjE)
    fix old
    assume a: "findById t_id (tasks s) i = Some old"
      "truthy (b_name body)" "jsTruthy (b_deadline body)"
      "parseDeadline e (b_deadline body) \<noteq> None"
      "(case b_assignedUser body of None \<Rightarrow> t_assignedUser old | Some a \<Rightarrow> a) = [] \<or>
       findById u_id (users s)
         (case b_assignedUser body of None \<Rightarrow> t_assignedUser old | Some a \<Rightarrow> a) \<noteq> None"
    from a(4) obtain t where t: "parseDeadline e (b_deadline body) = Some t" by blast
    from taskPut_valid_deadline[OF a(1,2,3) t a(5)]
    show "status (fst (taskPut e i body s)) = 200 \<and>
      (\<exists>k. findById t_id (tasks (snd (taskPut e i body s))) i = Some k \<and>
           parseDeadline e (b_deadline body) = Some (t_deadline k))"
      unfolding t by auto
  qed
  have p3: "parseDeadline e (b_deadline body) = None \<longrightarrow>
      status (fst (taskPost e newId body s)) = 400 \<and> snd (taskPost e newId body s) = s"
    using taskPost_invalid_deadline by blast
  have p4: "parseDeadline e (b_deadline body) = None \<and> findById t_id (tasks s) i \<noteq> None \<longrightarrow>
      status (fst (taskPut e i body s)) = 400 \<and> snd (taskPut e i body s) = s"
    using taskPut_invalid_deadline[of e body s i] by blast
  have p5: "\<not> jsTruthy (b_deadline body) \<longrightarrow>
      taskPost e newId body s =
        (respond 400 ''Task name and deadline are required'' DEmptyObject, s) \<and>
      (findById t_id (tasks s) i \<noteq> None \<longrightarrow>
         taskPut e i body s =
           (respond 400 ''Task name and deadline are required'' DEmptyObject, s))"
    using taskPost_falsy_deadline[of body e newId s] taskPut_falsy_deadline[of body s i _ e]
    by blast
  have p6: "\<forall>q. toNumber e (b_deadline body) = JFin q \<and> \<bar>q\<bar> \<le> 8640000000000000 \<longrightarrow>
      parseDeadline e (b_deadline body) = Some (if q < 0 then \<lceil>q\<rceil> else \<lfloor>q\<rfloor>)"
    using parseDeadline_number[of e "b_deadline body"] by blast
  have p7: "\<not> isNaN (toNumber e (b_deadline body)) \<longrightarrow>
      parseDeadline e (b_deadline body) = newDateOfNumber (toNumber e (b_deadline body))"
    using parseDeadline_not_nan by blast
  have p8: "\<forall>x. b_deadline body = JString x \<and> isNaN (jsNumber e x) \<longrightarrow>
      parseDeadline e (b_deadline body) = dateParse e x"
    using parseDeadline_string[of e] by simp
  have p9: "\<forall>r s'. taskPost e newId body s = (r, s') \<and> status r = 201 \<longrightarrow>
      (\<exists>k. data r = DTask k \<and> t_id k = newId \<and> k \<in> set (tasks s') \<and>
           jsTruthy (b_deadline body) \<and>
           parseDeadline e (b_deadline body) = Some (t_deadline k))"
    using taskPost_stored_deadline[of e newId body s] by blast
  have p10: "\<forall>r s'. taskPut e i body s = (r, s') \<and> status r = 200 \<longrightarrow>
      (\<exists>k. data r = DTask k \<and> findById t_id (tasks s') i = Some k \<and>
           jsTruthy (b_deadline body) \<and>
           parseDeadline e (b_deadline body) = Some (t_deadline k))"
    using taskPut_stored_deadline[of e i body s] by blast
  have p11: "b_deadline body = JString ''1700000000000'' \<and>
    jsNumber e ''1700000000000'' = JFin 1700000000000 \<and> truthy (b_name body) \<and>
    \<not> truthy (b_assignedUser body) \<and> newId \<notin> set (map t_id (tasks s)) \<longrightarrow>
      status (fst (taskPost e newId body s)) = 201 \<and>
      (\<exists>k. tasks (snd (taskPost e newId body s)) = tasks s @ [k] \<and> t_id k = newId \<and>
           t_deadline k = 1700000000000)"
  proof (intro impI, elim conjE)
    assume a: "b_deadline body = JString ''1700000000000''"
      "jsNumber e ''1700000000000'' = JFin 1700000000000" "truthy (b_name body)"
      "\<not> truthy (b_assignedUser body)" "newId \<notin> set (map t_id (tasks s))"
    have t: "jsTruthy (b_deadline body)" using a(1) by simp
    have d: "parseDeadline e (b_deadline body) = Some 1700000000000"
      using a(1,2) by (simp add: parseDeadline_def)
    have u: "strOr (b_assignedUser body) [] = [] \<or>
         findById u_id (users s) (strOr (b_assignedUser body) []) \<noteq> None"
      using a(4) by (cases "b_assignedUser body") auto
    from taskPost_valid_deadline[OF a(3) t d u a(5)]
    show "status (fst (taskPost e newId body s)) = 201 \<and>
      (\<exists>k. tasks (snd (taskPost e newId body s)) = tasks s @ [k] \<and> t_id k = newId \<and>
           t_deadline k = 1700000000000)" .
  qed
  have p12: "b_deadline body = JString ''not-a-date'' \<and> jsNumber e ''not-a-date'' = JNaN \<and>
    dateParse e ''not-a-date'' = None \<longrightarrow>
      status (fst (taskPost e newId body s)) = 400 \<and> snd (taskPost e newId body s) = s"
  proof (intro impI, elim conjE)
    assume a: "b_deadline body = JString ''not-a-date''" "jsNumber e ''not-a-date'' = JNaN"
      "dateParse e ''not-a-date'' = None"
    have "parseDeadline e (b_deadline body) = None"
      using a by (simp add: parseDeadline_def)
    from taskPost_invalid_deadline[OF this]
    show "status (fst (taskPost e newId body s)) = 400 \<and> snd (taskPost e newId body s) = s" .
  qed
  show ?thesis
    by (rule conjI[OF p1 conjI[OF p2 conjI[OF p3 conjI[OF p4 conjI[OF p5 conjI[OF p6
          conjI[OF p7 conjI[OF p8 conjI[OF p9 conjI[OF p10 conjI[OF p11 p12]]]]]]]]]]])
qed

theorem deadline_policy_witness:
  "status (fst (taskPost sampleEnv ''t9'' (taskReq ''essay'' ''1700000000000'') sampleStore)) = 201 \<and>
   map t_deadline (tasks (snd (taskPost sampleEnv ''t9'' (taskReq ''essay'' ''1700000000000'')
        sampleStore))) = [1700000000000, 1700000000001, 1700000000002, 1700000000000] \<and>
   map t_deadline (tasks (snd (taskPost sampleEnv ''t9'' (taskReq ''essay'' ''-1500.5'')
        sampleStore))) = [1700000000000, 1700000000001, 1700000000002, - 1500] \<and>
   status (fst (taskPut sampleEnv ''t1''
        ((taskReq ''report'' [])\<lparr>b_deadline := JNumber (JFin 1800000000000)\<rparr>) sampleStore)) = 200 \<and>
   map t_deadline (tasks (snd (taskPut sampleEnv ''t1''
        ((taskReq ''report'' [])\<lparr>b_deadline := JNumber (JFin 1800000000000)\<rparr>) sampleStore)))
     = [1800000000000, 1700000000001, 1700000000002] \<and>
   status (fst (taskPost sampleEnv ''t9'' (taskReq ''essay'' ''not-a-date'') sampleStore)) = 400 \<and>
   snd (taskPost sampleEnv ''t9'' (taskReq ''essay'' ''not-a-date'') sampleStore) = sampleStore \<and>
   status (fst (taskPut sampleEnv ''t1'' (taskReq ''essay'' ''not-a-date'') sampleStore)) = 400"
proof -
  let ?a = "taskReq ''essay'' ''1700000000000''"
  let ?b = "taskReq ''essay'' ''-1500.5''"
  let ?c = "(taskReq ''report'' [])\<lparr>b_deadline := JNumber (JFin 1800000000000)\<rparr>"
  let ?d = "taskReq ''essay'' ''not-a-date''"
  have nm: "truthy (b_name (taskReq n x))" if "n \<noteq> []" for n x
    using that by (simp add: taskReq_def)
  have nc: "truthy (b_name ?c)" by (simp add: taskReq_def)
  have tr: "jsTruthy (b_deadline ?a)" "jsTruthy (b_deadline ?b)" "jsTruthy (b_deadline ?c)"
    by (simp_all add: taskReq_def)
  have cl: "\<lceil>- (3001 / 2 :: rat)\<rceil> = - 1500"
    by (rule ceiling_unique) simp_all
  have pa: "parseDeadline sampleEnv (b_deadline ?a) = Some 1700000000000"
    and pb: "parseDeadline sampleEnv (b_deadline ?b) = Some (- 1500)"
    and pc: "parseDeadline sampleEnv (b_deadline ?c) = Some 1800000000000"
    and pd: "parseDeadline sampleEnv (b_deadline ?d) = None"
    by (simp_all add: taskReq_def parseDeadline_def sampleEnv_def cl)
  have au: "strOr (b_assignedUser (taskReq n x)) [] = []" for n x
    by (simp add: taskReq_def)
  have fr: "''t9'' \<notin> set (map t_id (tasks sampleStore))"
    by (simp add: sample_defs)
  have old: "findById t_id (tasks sampleStore) ''t1'' = Some task1"
    by (simp add: sample_defs findById_def findOne_def)
  have oa: "(case b_assignedUser ?c of None \<Rightarrow> t_assignedUser task1 | Some a \<Rightarrow> a) = [] \<or>
       findById u_id (users sampleStore)
         (case b_assignedUser ?c of None \<Rightarrow> t_assignedUser task1 | Some a \<Rightarrow> a) \<noteq> None"
    by (simp add: sample_defs findById_def findOne_def)
  note wa = deadline_policy[where body = ?a and e = sampleEnv and newId = "''t9''"
      and s = sampleStore and i = "''t1''"]
  note wb = deadline_policy[where body = ?b and e = sampleEnv and newId = "''t9''"
      and s = sampleStore and i = "''t1''"]
  note wc = deadline_policy[where body = ?c and e = sampleEnv and newId = "''t9''"
      and s = sampleStore and i = "''t1''"]
  note wd = deadline_policy[where body = ?d and e = sampleEnv and newId = "''t9''"
      and s = sampleStore and i = "''t1''"]
  have ra: "status (fst (taskPost sampleEnv ''t9'' ?a sampleStore)) = 201 \<and>
      (\<exists>k. tasks (snd (taskPost sampleEnv ''t9'' ?a sampleStore)) = tasks sampleStore @ [k] \<and>
           t_id k = ''t9'' \<and> parseDeadline sampleEnv (b_deadline ?a) = Some (t_deadline k))"
    using wa[THEN conjunct1] nm[of "''essay''"] tr(1) pa au fr by simp
  have rb: "status (fst (taskPost sampleEnv ''t9'' ?b sampleStore)) = 201 \<and>
      (\<exists>k. tasks (snd (taskPost sampleEnv ''t9'' ?b sampleStore)) = tasks sampleStore @ [k] \<and>
           t_id k = ''t9'' \<and> parseDeadline sampleEnv (b_deadline ?b) = Some (t_deadline k))"
    using wb[THEN conjunct1] nm[of "''essay''"] tr(2) pb au fr by simp
  have rc: "status (fst (taskPut sampleEnv ''t1'' ?c sampleStore)) = 200 \<and>
      (\<exists>k. findById t_id (tasks (snd (taskPut sampleEnv ''t1'' ?c sampleStore))) ''t1'' = Some k \<and>
           parseDeadline sampleEnv (b_deadline ?c) = Some (t_deadline k))"
    using wc[THEN conjunct2, THEN conjunct1, rule_format, of task1] old nc tr(3) pc oa by simp
  have rd: "status (fst (taskPost sampleEnv ''t9'' ?d sampleStore)) = 400 \<and>
        snd (taskPost sampleEnv ''t9'' ?d sampleStore) = sampleStore"
    using wd[THEN conjunct2, THEN conjunct2, THEN conjunct1] pd by simp
  have re: "status (fst (taskPut sampleEnv ''t1'' ?d sampleStore)) = 400"
    using wd[THEN conjunct2, THEN conjunct2, THEN conjunct2, THEN conjunct1] pd old by simp
  have ec: "tasks (snd (taskPut sampleEnv ''t1'' ?c sampleStore)) =
      [task1\<lparr>t_deadline := 1800000000000\<rparr>, task2, task3]"
    by (simp add: taskPut_def sample_defs findById_def findOne_def parseDeadline_def Let_def
         addPending_def pullPending_def addToSet_def pull_def)
  from ra rb rc rd re show ?thesis unfolding pa pb pc ec
    by (auto simp: sample_defs)
qed

text \<open>
  Claim C5 as stated fails for a deadline that is falsy: the JSON number 0 coerces to
  the number 0, a valid instant, yet the required-fields check answers 400 before the
  deadline is interpreted. And a PUT to an id with no task is answered 404, whatever
  the deadline.
\<close>

theorem deadline_zero_is_rejected:
  "toNumber sampleEnv (JNumber (JFin 0)) = JFin 0 \<and>
   newDateOfNumber (JFin 0) = Some 0 \<and>
   taskPost sampleEnv ''t9'' ((taskReq ''essay'' [])\<lparr>b_deadline := JNumber (JFin 0)\<rparr>) sampleStore
     = (respond 400 ''Task name and deadline are required'' DEmptyObject, sampleStore) \<and>
   taskPut sampleEnv ''t1'' ((taskReq ''essay'' [])\<lparr>b_deadline := JNumber (JFin 0)\<rparr>) sampleStore
     = (respond 400 ''Task name and deadline are required'' DEmptyObject, sampleStore) \<and>
   taskPut sampleEnv ''t9'' (taskReq ''essay'' ''not-a-date'') sampleStore
     = (respond 404 ''Task not found'' DEmptyObject, sampleStore)"
  by (simp add: taskPost_def taskPut_def taskReq_def sample_defs findById_def findOne_def)

section \<open>Uniqueness of a user's email\<close>

text \<open>
  Claim C6, as the routes implement it. POST /api/users with an email equal (as a
  string, so case-sensitively) to the email of an existing user is answered with 400
  and creates nothing; when the name is not empty the error is the duplicate-email
  one. With a non-empty name and an email no user has, POST succeeds and appends the
  new user (\<open>newId\<close> being an id the collection does not hold). PUT /api/users/:id looks
  for the email among the users with a different id only: an email another user has
  is the duplicate-email error, and an email used by no other user, this user's own
  included, is accepted.
\<close>

theorem email_uniqueness:
  assumes "ub_email body = Some m"
  shows
    "(m \<in> u_email ` set (users s) \<longrightarrow>
        status (fst (userPost e newId body s)) = 400 \<and> snd (userPost e newId body s) = s \<and>
        (truthy (ub_name body) \<and> m \<noteq> [] \<longrightarrow>
           message (fst (userPost e newId body s)) = ''A user with that email already exists'')) \<and>
     (m \<notin> u_email ` set (users s) \<and> m \<noteq> [] \<and> truthy (ub_name body) \<and>
      newId \<notin> u_id ` set (users s) \<longrightarrow>
        status (fst (userPost e newId body s)) = 201 \<and>
        (\<exists>u. users (snd (userPost e newId body s)) = users s @ [u] \<and> u_id u = newId \<and>
             u_email u = m)) \<and>
     (truthy (ub_name body) \<and> m \<noteq> [] \<and> findById u_id (users s) i \<noteq> None \<and>
      (\<exists>u. u \<in> set (users s) \<and> u_email u = m \<and> u_id u \<noteq> i) \<longrightarrow>
        status (fst (userPut e i body s)) = 400 \<and> snd (userPut e i body s) = s \<and>
        message (fst (userPut e i body s)) = ''A user with that email already exists'') \<and>
     (truthy (ub_name body) \<and> m \<noteq> [] \<and> findById u_id (users s) i \<noteq> None \<and>
      (\<forall>u\<in>set (users s). u_email u = m \<longrightarrow> u_id u = i) \<and>
      (\<not> truthy (ub_dateCreated body) \<or> dateParse e (strOr (ub_dateCreated body) []) \<noteq> None)
      \<longrightarrow> status (fst (userPut e i body s)) = 200)"
proof -
  have p1: "m \<in> u_email ` set (users s) \<longrightarrow>
        status (fst (userPost e newId body s)) = 400 \<and> snd (userPost e newId body s) = s \<and>
        (truthy (ub_name body) \<and> m \<noteq> [] \<longrightarrow>
           message (fst (userPost e newId body s)) = ''A user with that email already exists'')"
    using userPost_duplicate[OF assms] by blast
  have p2: "m \<notin> u_email ` set (users s) \<and> m \<noteq> [] \<and> truthy (ub_name body) \<and>
      newId \<notin> u_id ` set (users s) \<longrightarrow>
        status (fst (userPost e newId body s)) = 201 \<and>
        (\<exists>u. users (snd (userPost e newId body s)) = users s @ [u] \<and> u_id u = newId \<and>
             u_email u = m)"
  proof (cases "ub_name body")
    case None
    then show ?thesis by simp
  next
    case (Some n)
    show ?thesis using userPost_new_email[OF assms _ Some, of s newId e] Some by auto
  qed
  have p3: "truthy (ub_name body) \<and> m \<noteq> [] \<and> findById u_id (users s) i \<noteq> None \<and>
      (\<exists>u. u \<in> set (users s) \<and> u_email u = m \<and> u_id u \<noteq> i) \<longrightarrow>
        status (fst (userPut e i body s)) = 400 \<and> snd (userPut e i body s) = s \<and>
        message (fst (userPut e i body s)) = ''A user with that email already exists''"
    using userPut_duplicate[OF assms] by blast
  have p4: "truthy (ub_name body) \<and> m \<noteq> [] \<and> findById u_id (users s) i \<noteq> None \<and>
      (\<forall>u\<in>set (users s). u_email u = m \<longrightarrow> u_id u = i) \<and>
      (\<not> truthy (ub_dateCreated body) \<or> dateParse e (strOr (ub_dateCreated body) []) \<noteq> None)
      \<longrightarrow> status (fst (userPut e i body s)) = 200"
    using userPut_unique_email[OF assms] by blast
  show ?thesis by (rule conjI[OF p1 conjI[OF p2 conjI[OF p3 p4]]])
qed

theorem email_uniqueness_witness:
  "status (fst (userPost sampleEnv ''u3'' (userReq ''Al'' ''alice@example.org'') sampleStore)) = 400 \<and>
   message (fst (userPost sampleEnv ''u3'' (userReq ''Al'' ''alice@example.org'') sampleStore))
     = ''A user with that email already exists'' \<and>
   snd (userPost sampleEnv ''u3'' (userReq ''Al'' ''alice@example.org'') sampleStore) = sampleStore \<and>
   status (fst (userPost sampleEnv ''u3'' (userReq ''Al'' ''Alice@example.org'') sampleStore)) = 201 \<and>
   status (fst (userPut sampleEnv ''u1'' (userReq ''Al'' ''alice@example.org'') sampleStore)) = 200 \<and>
   status (fst (userPut sampleEnv ''u1'' (userReq ''Al'' ''bob@example.org'') sampleStore)) = 400"
proof -
  have b1: "ub_email (userReq ''Al'' ''alice@example.org'') = Some ''alice@example.org''"
    and b2: "ub_email (userReq ''Al'' ''Alice@example.org'') = Some ''Alice@example.org''"
    and b3: "ub_email (userReq ''Al'' ''bob@example.org'') = Some ''bob@example.org''"
    by (simp_all add: userReq_def)
  have nm: "truthy (ub_name (userReq ''Al'' x))" for x
    by (simp add: userReq_def)
  have nd: "\<not> truthy (ub_dateCreated (userReq ''Al'' x))" for x
    by (simp add: userReq_def)
  have e1: "''alice@example.org'' \<in> u_email ` set (users sampleStore)"
    by (simp add: sample_defs)
  have e2: "''Alice@example.org'' \<notin> u_email ` set (users sampleStore)"
    by (simp add: sample_defs)
  have fr: "''u3'' \<notin> u_id ` set (users sampleStore)"
    by (simp add: sample_defs)
  have ex: "findById u_id (users sampleStore) ''u1'' \<noteq> None"
    by (simp add: sample_defs findById_def findOne_def)
  have own: "\<forall>u\<in>set (users sampleStore). u_email u = ''alice@example.org'' \<longrightarrow> u_id u = ''u1''"
    by (simp add: sample_defs)
  have oth: "\<exists>u. u \<in> set (users sampleStore) \<and> u_email u = ''bob@example.org'' \<and> u_id u \<noteq> ''u1''"
    by (rule exI[of _ bob]) (simp add: sample_defs)
  note w1 = email_uniqueness[OF b1, where e = sampleEnv and newId = "''u3''" and s = sampleStore
      and i = "''u1''"]
  note w2 = email_uniqueness[OF b2, where e = sampleEnv and newId = "''u3''" and s = sampleStore
      and i = "''u1''"]
  note w3 = email_uniqueness[OF b3, where e = sampleEnv and newId = "''u3''" and s = sampleStore
      and i = "''u1''"]
  have a: "status (fst (userPost sampleEnv ''u3'' (userReq ''Al'' ''alice@example.org'') sampleStore)) = 400 \<and>
     snd (userPost sampleEnv ''u3'' (userReq ''Al'' ''alice@example.org'') sampleStore) = sampleStore \<and>
     (truthy (ub_name (userReq ''Al'' ''alice@example.org'')) \<and> ''alice@example.org'' \<noteq> [] \<longrightarrow>
     message (fst (userPost sampleEnv ''u3'' (userReq ''Al'' ''alice@example.org'') sampleStore))
       = ''A user with that email already exists'')"
    by (rule w1[THEN conjunct1, rule_format, OF e1])
  have b: "status (fst (userPost sampleEnv ''u3'' (userReq ''Al'' ''Alice@example.org'') sampleStore)) = 201"
    using w2[THEN conjunct2, THEN conjunct1, rule_format] e2 nm fr by simp
  have c: "status (fst (userPut sampleEnv ''u1'' (userReq ''Al'' ''alice@example.org'') sampleStore)) = 200"
    using w1[THEN conjunct2, THEN conjunct2, THEN conjunct2, rule_format] nm nd ex own by simp
  have d: "status (fst (userPut sampleEnv ''u1'' (userReq ''Al'' ''bob@example.org'') sampleStore)) = 400"
    using w3[THEN conjunct2, THEN conjunct2, THEN conjunct1, rule_format] nm ex oth by simp
  from a nm b c d show ?thesis by simp
qed

text \<open>
  Claim C6 as stated fails when the name is empty: the required-fields check comes
  first, and a POST with an existing email is answered with its message, not with
  the duplicate-email one.
\<close>

theorem userPost_duplicate_email_without_name:
  "''alice@example.org'' \<in> u_email ` set (users sampleStore) \<and>
   status (fst (userPost sampleEnv ''u3'' (userReq [] ''alice@example.org'') sampleStore)) = 400 \<and>
   message (fst (userPost sampleEnv ''u3'' (userReq [] ''alice@example.org'') sampleStore))
     = ''Name and email are required'' \<and>
   message (fst (userPost sampleEnv ''u3'' (userReq [] ''alice@example.org'') sampleStore))
     \<noteq> ''A user with that email already exists''"
  by (simp add: userPost_def sample_defs respond_def)

section \<open>Deleting a user\<close>

text \<open>
  Claim C7. DELETE /api/users/:id of a user that exists clears \<^verbatim>\<open>assignedUser\<close> to the
  empty string and sets \<^verbatim>\<open>assignedUserName\<close> to \<^verbatim>\<open>unassigned\<close> on every task assigned to
  that user, completed or not, leaves every other task as it was, and removes the user:
  with ids unique in the collection, a later read by id answers 404 (or 400 for a
  malformed projection), never 200. For an id with no user the answer is 404 and the
  store is unchanged.
\<close>

theorem userDelete_cascade:
  "(findById u_id (users s) i \<noteq> None \<longrightarrow>
      status (fst (userDelete i s)) = 200 \<and>
      tasks (snd (userDelete i s)) =
        map (\<lambda>t. if t_assignedUser t = i
                 then t\<lparr>t_assignedUser := [], t_assignedUserName := ''unassigned''\<rparr> else t)
          (tasks s) \<and>
      (distinct (map u_id (users s)) \<longrightarrow>
         users (snd (userDelete i s)) = filter (\<lambda>u. u_id u \<noteq> i) (users s) \<and>
         findById u_id (users (snd (userDelete i s))) i = None \<and>
         status (userGetById e g rq i (snd (userDelete i s))) \<noteq> 200)) \<and>
   (findById u_id (users s) i = None \<longrightarrow>
      status (fst (userDelete i s)) = 404 \<and> snd (userDelete i s) = s)"
  using userDelete_existing[of s i _ e g rq] userDelete_tasks[of s i] userDelete_missing[of s i]
  by auto

theorem userDelete_cascade_witness:
  "status (fst (userDelete ''u1'' sampleStore)) = 200 \<and>
   tasks (snd (userDelete ''u1'' sampleStore)) =
     [task1\<lparr>t_assignedUser := [], t_assignedUserName := ''unassigned''\<rparr>,
      task2\<lparr>t_assignedUser := [], t_assignedUserName := ''unassigned''\<rparr>, task3] \<and>
   users (snd (userDelete ''u1'' sampleStore)) = [bob] \<and>
   status (userGetById sampleEnv plainEngine noParams ''u1'' (snd (userDelete ''u1'' sampleStore))) = 404 \<and>
   userDelete ''u9'' sampleStore = (respond 404 ''User not found'' DEmptyObject, sampleStore)"
proof -
  have d: "distinct (map u_id (users sampleStore))"
    and f: "findById u_id (users sampleStore) ''u1'' \<noteq> None"
    and m: "findById u_id (users sampleStore) ''u9'' = None"
    by (simp_all add: sample_defs findById_def findOne_def)
  note w1 = userDelete_cascade[where s = sampleStore and i = "''u1''" and e = sampleEnv
      and g = plainEngine and rq = noParams, THEN conjunct1, rule_format, OF f]
  note w1d = w1[THEN conjunct2, THEN conjunct2, rule_format, OF d]
  note w2 = userDelete_cascade[where s = sampleStore and i = "''u9''" and e = sampleEnv
      and g = plainEngine and rq = noParams, THEN conjunct2, rule_format, OF m]
  have t: "map (\<lambda>t. if t_assignedUser t = ''u1''
                 then t\<lparr>t_assignedUser := [], t_assignedUserName := ''unassigned''\<rparr> else t)
          (tasks sampleStore) =
     [task1\<lparr>t_assignedUser := [], t_assignedUserName := ''unassigned''\<rparr>,
      task2\<lparr>t_assignedUser := [], t_assignedUserName := ''unassigned''\<rparr>, task3]"
    by (simp add: sample_defs)
  have u: "filter (\<lambda>u. u_id u \<noteq> ''u1'') (users sampleStore) = [bob]"
    by (simp add: sample_defs)
  have n: "findById u_id (users (snd (userDelete ''u1'' sampleStore))) ''u1'' = None"
    using w1d by blast
  have g: "status (userGetById sampleEnv plainEngine noParams ''u1''
                  (snd (userDelete ''u1'' sampleStore))) = 404"
    using n by (simp add: userGetById_def noParams_def parseJSONParam_def jsonOr_def respond_def)
  have b: "userDelete ''u9'' sampleStore = (respond 404 ''User not found'' DEmptyObject, sampleStore)"
    using w2 by (simp add: userDelete_def m)
  from w1 w1d t u g b show ?thesis by simp
qed

section \<open>The creation date of a user\<close>

text \<open>
  Claim C8, as the routes implement it. PUT /api/users/:id stores a supplied non-empty
  \<^verbatim>\<open>dateCreated\<close> re-parsed as a date, and keeps the stored date when none is supplied.
  POST /api/users never reads the field: the new user's \<^verbatim>\<open>dateCreated\<close> is the creation
  time whatever the body holds.
\<close>

theorem dateCreated_override:
  "(\<forall>r s'. userPost e newId body s = (r, s') \<and> status r = 201 \<longrightarrow>
      (\<exists>u. data r = DUser u \<and> users s' = users s @ [u] \<and> u_id u = newId \<and>
           u_dateCreated u = now e)) \<and>
   (\<forall>r s'. userPut e i body s = (r, s') \<and> status r = 200 \<longrightarrow>
      (\<exists>old u'. findById u_id (users s) i = Some old \<and> data r = DUser u' \<and>
           findById u_id (users s') i = Some u' \<and>
           (\<forall>d. ub_dateCreated body = Some d \<and> d \<noteq> [] \<longrightarrow>
                dateParse e d = Some (u_dateCreated u')) \<and>
           (\<not> truthy (ub_dateCreated body) \<longrightarrow> u_dateCreated u' = u_dateCreated old)))"
  using userPost_dateCreated[of e newId body s] userPut_dateCreated[of e i body s] by blast

theorem dateCreated_override_witness:
  "status (fst (userPut sampleEnv ''u1''
      ((userReq ''Alice'' ''alice@example.org'')\<lparr>ub_dateCreated := Some ''2020-01-01T00:00:00.000Z''\<rparr>)
      sampleStore)) = 200 \<and>
   map u_dateCreated (users (snd (userPut sampleEnv ''u1''
      ((userReq ''Alice'' ''alice@example.org'')\<lparr>ub_dateCreated := Some ''2020-01-01T00:00:00.000Z''\<rparr>)
      sampleStore))) = [1577836800000, 2000]"
proof -
  let ?b = "(userReq ''Alice'' ''alice@example.org'')\<lparr>ub_dateCreated := Some ''2020-01-01T00:00:00.000Z''\<rparr>"
  have eq: "userPut sampleEnv ''u1'' ?b sampleStore =
     (respond 200 ''User updated'' (DUser (alice\<lparr>u_pendingTasks := [], u_dateCreated := 1577836800000\<rparr>)),
      \<lparr>users = [alice\<lparr>u_pendingTasks := [], u_dateCreated := 1577836800000\<rparr>, bob],
       tasks = [task1\<lparr>t_assignedUser := [], t_assignedUserName := ''unassigned''\<rparr>, task2, task3]\<rparr>)"
    by (simp add: userPut_def sample_defs findById_def findOne_def Let_def updateMany_def)
  have st: "status (respond 200 ''User updated'' d) = 200" for d
    by (simp add: respond_def)
  from dateCreated_override[where e = sampleEnv and i = "''u1''" and body = ?b and s = sampleStore,
      THEN conjunct2, rule_format, OF conjI[OF eq st]]
  obtain u' where "data (respond 200 ''User updated''
        (DUser (alice\<lparr>u_pendingTasks := [], u_dateCreated := 1577836800000\<rparr>))) = DUser u'"
    and "dateParse sampleEnv ''2020-01-01T00:00:00.000Z'' = Some (u_dateCreated u')"
    by (auto simp: userReq_def)
  then show ?thesis unfolding eq by (simp add: respond_def sample_defs)
qed

text \<open>
  Claim C8 as stated fails for POST: a user created with a \<^verbatim>\<open>dateCreated\<close> that parses to
  1577836800000 is stored with the creation time 1762128000000 instead.
\<close>

theorem userPost_ignores_dateCreated:
  "status (fst (userPost sampleEnv ''u3''
      ((userReq ''Carol'' ''carol@example.org'')\<lparr>ub_dateCreated := Some ''2020-01-01T00:00:00.000Z''\<rparr>)
      sampleStore)) = 201 \<and>
   dateParse sampleEnv ''2020-01-01T00:00:00.000Z'' = Some 1577836800000 \<and>
   map u_dateCreated (filter (\<lambda>u. u_id u = ''u3'') (users (snd (userPost sampleEnv ''u3''
      ((userReq ''Carol'' ''carol@example.org'')\<lparr>ub_dateCreated := Some ''2020-01-01T00:00:00.000Z''\<rparr>)
      sampleStore)))) = [1762128000000]"
  by (simp add: userPost_def sample_defs findOne_def Let_def respond_def)

section \<open>Default limits of the two list routes\<close>

text \<open>
  Claim C9. With no \<^verbatim>\<open>limit\<close> parameter (absent or empty), GET /api/tasks applies the
  limit 100: whenever it returns a list, the list has at most 100 tasks, namely the
  first 100 of the matching ones left after the skip. GET /api/users applies no limit:
  the list has every matching user left after the skip, so with no skip every matching
  user (with no projection, exactly the matching users). A request with no parameters
  at all is answered with 200 and such a list by both routes.
\<close>

theorem default_limits:
  assumes "\<not> truthy (qp_limit rq)"
  shows
    "(\<forall>ts. data (tasksGet e g rq s) = DTasks ts \<longrightarrow>
        length ts \<le> 100 \<and>
        length ts =
          min 100 (countDocuments g (jsonOr (parseJSONParam e (qp_where rq)) (JsObj [])) (tasks s)
                   - (case (if truthy (qp_skip rq) then parseInt e (strOr (qp_skip rq) []) else None)
                      of None \<Rightarrow> 0 | Some k \<Rightarrow> nat k))) \<and>
     (\<forall>us. data (usersGet e h rq s) = DUsers us \<longrightarrow>
        length us =
          countDocuments h (jsonOr (parseJSONParam e (qp_where rq)) (JsObj [])) (users s)
            - (case (if truthy (qp_skip rq) then parseInt e (strOr (qp_skip rq) []) else None)
               of None \<Rightarrow> 0 | Some k \<Rightarrow> nat k) \<and>
        (\<not> truthy (qp_skip rq) \<longrightarrow>
           length us =
             countDocuments h (jsonOr (parseJSONParam e (qp_where rq)) (JsObj [])) (users s)) \<and>
        (\<not> truthy (qp_skip rq) \<and> \<not> truthy (qp_select rq) \<and> \<not> truthy (qp_filter rq) \<longrightarrow>
           set us = {u \<in> set (users s).
                      e_match h (jsonOr (parseJSONParam e (qp_where rq)) (JsObj [])) u})) \<and>
     (qp_count rq \<noteq> Some ''true'' \<and> \<not> truthy (qp_sort rq) \<and> \<not> truthy (qp_select rq) \<and>
      \<not> truthy (qp_filter rq) \<and> \<not> truthy (qp_skip rq) \<longrightarrow>
        (\<exists>ts. tasksGet e g rq s = respond 200 ''OK'' (DTasks ts)) \<and>
        (\<exists>us. usersGet e h rq s = respond 200 ''OK'' (DUsers us)))"
proof -
  have p1: "\<forall>ts. data (tasksGet e g rq s) = DTasks ts \<longrightarrow>
        length ts \<le> 100 \<and>
        length ts =
          min 100 (countDocuments g (jsonOr (parseJSONParam e (qp_where rq)) (JsObj [])) (tasks s)
                   - (case (if truthy (qp_skip rq) then parseInt e (strOr (qp_skip rq) []) else None)
                      of None \<Rightarrow> 0 | Some k \<Rightarrow> nat k))"
    using tasksGet_default_limit[OF assms, of e g s] by simp
  have p2: "\<forall>us. data (usersGet e h rq s) = DUsers us \<longrightarrow>
        length us =
          countDocuments h (jsonOr (parseJSONParam e (qp_where rq)) (JsObj [])) (users s)
            - (case (if truthy (qp_skip rq) then parseInt e (strOr (qp_skip rq) []) else None)
               of None \<Rightarrow> 0 | Some k \<Rightarrow> nat k) \<and>
        (\<not> truthy (qp_skip rq) \<longrightarrow>
           length us =
             countDocuments h (jsonOr (parseJSONParam e (qp_where rq)) (JsObj [])) (users s)) \<and>
        (\<not> truthy (qp_skip rq) \<and> \<not> truthy (qp_select rq) \<and> \<not> truthy (qp_filter rq) \<longrightarrow>
           set us = {u \<in> set (users s).
                      e_match h (jsonOr (parseJSONParam e (qp_where rq)) (JsObj [])) u})"
  proof (intro allI impI conjI)
    fix us assume d: "data (usersGet e h rq s) = DUsers us"
    show l: "length us =
          countDocuments h (jsonOr (parseJSONParam e (qp_where rq)) (JsObj [])) (users s)
            - (case (if truthy (qp_skip rq) then parseInt e (strOr (qp_skip rq) []) else None)
               of None \<Rightarrow> 0 | Some k \<Rightarrow> nat k)"
      by (rule usersGet_no_limit(1)[OF assms d])
    show "length us =
             countDocuments h (jsonOr (parseJSONParam e (qp_where rq)) (JsObj [])) (users s)"
      if "\<not> truthy (qp_skip rq)"
      using l that by simp
    show "set us = {u \<in> set (users s).
                      e_match h (jsonOr (parseJSONParam e (qp_where rq)) (JsObj [])) u}"
      if "\<not> truthy (qp_skip rq) \<and> \<not> truthy (qp_select rq) \<and> \<not> truthy (qp_filter rq)"
      using usersGet_no_limit(2)[OF assms d] that by blast
  qed
  have p3: "qp_count rq \<noteq> Some ''true'' \<and> \<not> truthy (qp_sort rq) \<and> \<not> truthy (qp_select rq) \<and>
      \<not> truthy (qp_filter rq) \<and> \<not> truthy (qp_skip rq) \<longrightarrow>
        (\<exists>ts. tasksGet e g rq s = respond 200 ''OK'' (DTasks ts)) \<and>
        (\<exists>us. usersGet e h rq s = respond 200 ''OK'' (DUsers us))"
    using tasksGet_plain[of rq e g s] usersGet_plain[of rq e h s] by blast
  show ?thesis by (rule conjI[OF p1 conjI[OF p2 p3]])
qed

theorem default_limits_witness:
  "\<exists>ts us. tasksGet sampleEnv plainEngine noParams bigStore = respond 200 ''OK'' (DTasks ts) \<and>
           length ts = 100 \<and>
           usersGet sampleEnv plainEngine noParams bigStore = respond 200 ''OK'' (DUsers us) \<and>
           length us = 150"
proof -
  have nl: "\<not> truthy (qp_limit noParams)"
    and np: "qp_count noParams \<noteq> Some ''true'' \<and> \<not> truthy (qp_sort noParams) \<and>
             \<not> truthy (qp_select noParams) \<and> \<not> truthy (qp_filter noParams) \<and>
             \<not> truthy (qp_skip noParams)"
    by (simp_all add: noParams_def)
  note w = default_limits[OF nl, where e = sampleEnv and g = plainEngine and h = plainEngine
      and s = bigStore]
  from w[THEN conjunct2, THEN conjunct2, rule_format, OF np]
  obtain ts us where
    t: "tasksGet sampleEnv plainEngine noParams bigStore = respond 200 ''OK'' (DTasks ts)" and
    u: "usersGet sampleEnv plainEngine noParams bigStore = respond 200 ''OK'' (DUsers us)"
    by blast
  have ct: "countDocuments plainEngine c (tasks bigStore) = 150" for c
    by (simp add: countDocuments_def plainEngine_def bigStore_def manyTasks_def)
  have cu: "countDocuments plainEngine c (users bigStore) = 150" for c
    by (simp add: countDocuments_def plainEngine_def bigStore_def manyUsers_def)
  have dt: "data (tasksGet sampleEnv plainEngine noParams bigStore) = DTasks ts"
    by (simp add: t respond_def)
  have du: "data (usersGet sampleEnv plainEngine noParams bigStore) = DUsers us"
    by (simp add: u respond_def)
  have lt: "length ts = 100"
    using w[THEN conjunct1, rule_format, OF dt] by (simp add: ct noParams_def)
  have lu: "length us = 150"
    using w[THEN conjunct2, THEN conjunct1, rule_format, OF du] by (simp add: cu noParams_def)
  from t u lt lu show ?thesis by blast
qed

section \<open>Task PUT keeps a description that the request does not replace\<close>

text \<open>
  Claim C10. A PUT /api/tasks/:id whose body has no description, or the empty string,
  leaves the stored description as it was, and no PUT turns a non-empty description
  into an empty one; a successful PUT with a non-empty description stores that one.
\<close>

theorem taskPut_keeps_description:
  assumes "taskPut e i body s = (r, s')" and "findById t_id (tasks s) i = Some old"
  shows "\<exists>t'. findById t_id (tasks s') i = Some t' \<and>
           (b_description body = None \<or> b_description body = Some [] \<longrightarrow>
              t_description t' = t_description old) \<and>
           (t_description old \<noteq> [] \<longrightarrow> t_description t' \<noteq> []) \<and>
           (status r = 200 \<longrightarrow>
              data r = DTask t' \<and>
              (\<forall>d. b_description body = Some d \<and> d \<noteq> [] \<longrightarrow> t_description t' = d))"
  using assms findById_key[OF assms(2)]
  by (auto simp: taskPut_def Let_def respond_def findById_updateFirst_const strOr_eq
      split: option.splits if_splits)

theorem taskPut_keeps_description_witness:
  "status (fst (taskPut sampleEnv ''t1''
       ((taskReq ''report v2'' ''1700000000000'')\<lparr>b_description := Some []\<rparr>) sampleStore)) = 200 \<and>
   map t_description (tasks (snd (taskPut sampleEnv ''t1''
       ((taskReq ''report v2'' ''1700000000000'')\<lparr>b_description := Some []\<rparr>) sampleStore)))
     = [''draft the report'', [], ''second reading'']"
proof -
  let ?b = "(taskReq ''report v2'' ''1700000000000'')\<lparr>b_description := Some []\<rparr>"
  have eq: "taskPut sampleEnv ''t1'' ?b sampleStore =
     (respond 200 ''Task updated'' (DTask (task1\<lparr>t_name := ''report v2''\<rparr>)),
      sampleStore\<lparr>tasks := [task1\<lparr>t_name := ''report v2''\<rparr>, task2, task3]\<rparr>)"
    by (simp add: taskPut_def sample_defs findById_def findOne_def parseDeadline_def Let_def
         addPending_def pullPending_def addToSet_def pull_def)
  have old: "findById t_id (tasks sampleStore) ''t1'' = Some task1"
    by (simp add: sample_defs findById_def findOne_def)
  from taskPut_keeps_description[OF eq old]
  have "\<exists>t'. findById t_id (tasks (sampleStore\<lparr>tasks := [task1\<lparr>t_name := ''report v2''\<rparr>, task2, task3]\<rparr>))
               ''t1'' = Some t' \<and> t_description t' = t_description task1"
    by auto
  then show ?thesis unfolding eq by (simp add: respond_def sample_defs)
qed

end
